theory Spec2Isabelle
  imports Complex_Main
begin

section \<open>The marketplace schema: fields, choices and defaults\<close>

text \<open>
  The repository consists of Django model declarations only.  A model class is
  embedded as a record, a table as the list of its rows, a \<open>choices\<close> list as the
  list of pairs the class declares, and a \<open>DecimalField\<close> value by its numeric
  value (a rational number; the declared \<open>max_digits\<close> and \<open>decimal_places\<close>
  are checked by the field's validator below).  Primary keys, foreign keys and
  \<open>PositiveIntegerField\<close> values are integers.  Time stamps
  (\<open>auto_now_add\<close>, nullable dates) and nullable free-text or JSON columns carry
  no constraint that any statement below depends on and are left out of the
  records.  A field name that several models share (\<open>status\<close>, \<open>order\<close>,
  \<open>shop\<close>, \<open>commission_rate\<close>, \<dots>) carries its model as a prefix.
\<close>

text \<open>
  The errors: Django's ValidationError, IntegrityError and RestrictedError, the
  OverflowError of the database driver, and the error kinds of the
  specification's section 7 that the operations of the last definition section
  return.
\<close>

datatype error = ValidationError | IntegrityError | RestrictedError | OverflowError
  | InvalidState | InvalidTransition | CouponInvalid | CouponNotApplicable

type_synonym decimal = rat

subsection \<open>Field validation\<close>

text \<open>
  \<open>DecimalField(max_digits = m, decimal_places = d)\<close> runs Django's
  \<open>DecimalValidator\<close>: at most \<open>d\<close> digits after the point and at most
  \<open>m - d\<close> before it.  The sign is not restricted.
\<close>

definition decimal_ok :: "nat \<Rightarrow> nat \<Rightarrow> decimal \<Rightarrow> bool" where
  "decimal_ok max_digits decimal_places v =
     (of_int \<lfloor>v * 10 ^ decimal_places\<rfloor> = v * 10 ^ decimal_places
      \<and> \<bar>v\<bar> < 10 ^ (max_digits - decimal_places))"


definition choice_ok :: "(string \<times> string) list \<Rightarrow> string \<Rightarrow> bool" where
  "choice_ok choices s = (s \<in> set (map fst choices))"

subsection \<open>shops/models.py: Shop\<close>

definition Shop_STATUS_CHOICES :: "(string \<times> string) list" where
  "Shop_STATUS_CHOICES =
     [(''pending'', ''Pending''), (''approved'', ''Approved''),
      (''suspended'', ''Suspended''), (''rejected'', ''Rejected'')]"

record Shop =
  shop_id :: nat
  owner :: string
  shop_name :: string
  shop_slug :: string
  shop_status :: string
  shop_commission_rate :: decimal
  minimum_payout_amount :: decimal

text \<open>
  \<open>Shop(owner = \<dots>, shop_name = \<dots>, shop_slug = \<dots>, **kwargs)\<close>: a field with a
  declared \<open>default\<close> takes it when the caller passes no value (\<open>None\<close> here
  stands for an omitted keyword).  The primary key is assigned on insertion.
\<close>

definition Shop_init ::
  "nat \<Rightarrow> string \<Rightarrow> string \<Rightarrow> string \<Rightarrow> string option \<Rightarrow> decimal option \<Rightarrow> decimal option \<Rightarrow> Shop" where
  "Shop_init pk own name slug st rate min_payout =
     \<lparr> shop_id = pk, owner = own, shop_name = name, shop_slug = slug,
       shop_status = (case st of None \<Rightarrow> ''pending'' | Some s \<Rightarrow> s),
       shop_commission_rate = (case rate of None \<Rightarrow> 10.00 | Some r \<Rightarrow> r),
       minimum_payout_amount = (case min_payout of None \<Rightarrow> 50.00 | Some m \<Rightarrow> m) \<rparr>"

subsection \<open>orders/models.py: the status choices\<close>

definition Order_STATUS_CHOICES :: "(string \<times> string) list" where
  "Order_STATUS_CHOICES =
     [(''pending'', ''Pending''), (''processing'', ''Processing''),
      (''shipped'', ''Shipped''), (''delivered'', ''Delivered''),
      (''cancelled'', ''Cancelled''), (''refunded'', ''Refunded''),
      (''failed'', ''Failed'')]"

definition OrderItem_STATUS_CHOICES :: "(string \<times> string) list" where
  "OrderItem_STATUS_CHOICES =
     [(''pending'', ''Pending''), (''shipped'', ''Shipped''),
      (''delivered'', ''Delivered''), (''cancelled'', ''Cancelled''),
      (''refunded'', ''Refunded'')]"

section \<open>Tables and their declared constraints\<close>

text \<open>
  A table is the list of its rows in insertion order.  \<open>BigAutoField(primary_key
  = True)\<close> lets the database choose the key of a new row: a value above every
  key in the table.  \<open>Model.objects.create\<close> issues the INSERT without running
  the validators; the database checks the declared constraints and raises
  \<open>IntegrityError\<close> on a violation, leaving the table as it was.
\<close>

definition auto_pk :: "nat list \<Rightarrow> nat" where
  "auto_pk pks = Suc (fold max pks 0)"

subsection \<open>orders/models.py: OrderAddress\<close>

definition ADDRESS_TYPE_CHOICES :: "(string \<times> string) list" where
  "ADDRESS_TYPE_CHOICES = [(''billing'', ''Billing''), (''shipping'', ''Shipping'')]"

record OrderAddress =
  address_id :: nat
  address_order :: nat
  address_type :: string
  address_line1 :: string
  city :: string
  country :: string
  postal_code :: string

text \<open>\<open>unique_together = ('order', 'address_type')\<close>, with the primary key.\<close>

definition OrderAddress_table_ok :: "OrderAddress list \<Rightarrow> bool" where
  "OrderAddress_table_ok rows =
     (distinct (map address_id rows)
      \<and> distinct (map (\<lambda>r. (address_order r, address_type r)) rows))"

definition OrderAddress_create ::
  "OrderAddress list \<Rightarrow> nat \<Rightarrow> string \<Rightarrow> string \<Rightarrow> string \<Rightarrow> string \<Rightarrow> string
     \<Rightarrow> error + OrderAddress list" where
  "OrderAddress_create rows ord ty line1 cty ctry pcode =
     (if (ord, ty) \<in> set (map (\<lambda>r. (address_order r, address_type r)) rows)
      then Inl IntegrityError
      else Inr (rows @
        [\<lparr> address_id = auto_pk (map address_id rows), address_order = ord,
           address_type = ty, address_line1 = line1, city = cty, country = ctry,
           postal_code = pcode \<rparr>]))"

subsection \<open>payments/models.py: PayoutTransaction\<close>

record PayoutTransaction =
  payout_transaction_id :: nat
  pt_payout :: nat
  pt_commission :: nat
  pt_amount :: decimal

text \<open>\<open>unique_together = ('payout', 'commission')\<close>, with the primary key.\<close>

definition PayoutTransaction_table_ok :: "PayoutTransaction list \<Rightarrow> bool" where
  "PayoutTransaction_table_ok rows =
     (distinct (map payout_transaction_id rows)
      \<and> distinct (map (\<lambda>r. (pt_payout r, pt_commission r)) rows))"

definition PayoutTransaction_create ::
  "PayoutTransaction list \<Rightarrow> nat \<Rightarrow> nat \<Rightarrow> decimal \<Rightarrow> error + PayoutTransaction list" where
  "PayoutTransaction_create rows p c a =
     (if (p, c) \<in> set (map (\<lambda>r. (pt_payout r, pt_commission r)) rows)
      then Inl IntegrityError
      else Inr (rows @
        [\<lparr> payout_transaction_id = auto_pk (map payout_transaction_id rows),
           pt_payout = p, pt_commission = c, pt_amount = a \<rparr>]))"

subsection \<open>discounts/models.py: CouponUsage\<close>

record CouponUsage =
  usage_id :: nat
  usage_coupon :: nat
  usage_user :: string
  usage_order :: nat
  usage_discount_amount :: decimal

text \<open>\<open>unique_together = ('coupon', 'order')\<close>, with the primary key.\<close>

definition CouponUsage_table_ok :: "CouponUsage list \<Rightarrow> bool" where
  "CouponUsage_table_ok rows =
     (distinct (map usage_id rows)
      \<and> distinct (map (\<lambda>r. (usage_coupon r, usage_order r)) rows))"

definition CouponUsage_create ::
  "CouponUsage list \<Rightarrow> nat \<Rightarrow> string \<Rightarrow> nat \<Rightarrow> decimal \<Rightarrow> error + CouponUsage list" where
  "CouponUsage_create rows c u ord d =
     (if (c, ord) \<in> set (map (\<lambda>r. (usage_coupon r, usage_order r)) rows)
      then Inl IntegrityError
      else Inr (rows @
        [\<lparr> usage_id = auto_pk (map usage_id rows), usage_coupon = c,
           usage_user = u, usage_order = ord, usage_discount_amount = d \<rparr>]))"


section \<open>Orders, order items and commissions\<close>

text \<open>
  \<open>Model.clean_fields\<close> (the field part of \<open>full_clean\<close>) runs every field's
  validators and raises one ValidationError when any of them fails.  The
  existence check of a foreign key and the uniqueness check of
  \<open>order_number\<close> read tables and are not part of the functions below.
\<close>

subsection \<open>orders/models.py: Order\<close>

record Order =
  order_id :: nat
  customer :: string
  order_number :: string
  order_status :: string
  subtotal :: decimal
  tax_amount :: decimal
  shipping_amount :: decimal
  discount_amount :: decimal
  total_amount :: decimal
  currency :: string

text \<open>
  \<open>Order(\<dots>)\<close>: status, tax_amount, shipping_amount and discount_amount have
  declared defaults; subtotal and total_amount have none and are passed by the
  caller, each on its own.
\<close>

definition Order_init ::
  "nat \<Rightarrow> string \<Rightarrow> string \<Rightarrow> string option \<Rightarrow> decimal \<Rightarrow> decimal option \<Rightarrow> decimal option
     \<Rightarrow> decimal option \<Rightarrow> decimal \<Rightarrow> string \<Rightarrow> Order" where
  "Order_init pk cust num st sub tax ship disc tot cur =
     \<lparr> order_id = pk, customer = cust, order_number = num,
       order_status = (case st of None \<Rightarrow> ''pending'' | Some s \<Rightarrow> s),
       subtotal = sub,
       tax_amount = (case tax of None \<Rightarrow> 0.00 | Some t \<Rightarrow> t),
       shipping_amount = (case ship of None \<Rightarrow> 0.00 | Some t \<Rightarrow> t),
       discount_amount = (case disc of None \<Rightarrow> 0.00 | Some t \<Rightarrow> t),
       total_amount = tot, currency = cur \<rparr>"


subsection \<open>orders/models.py: OrderItem\<close>

record OrderItem =
  item_id :: nat
  item_order :: nat
  item_product :: nat
  item_variant :: nat
  item_shop :: nat
  quantity :: int
  unit_price :: decimal
  total_price :: decimal
  item_commission_rate :: decimal
  item_commission_amount :: decimal
  item_status :: string

text \<open>
  \<open>quantity = models.PositiveIntegerField()\<close>: Django's field of that name
  validates against the range the database backend reports for it, which starts
  at 0 on every backend; the upper end \<open>hi\<close> is the backend's (2147483647 on
  PostgreSQL).  The column carries the check \<open>quantity >= 0\<close>.
\<close>

definition positive_integer_ok :: "int \<Rightarrow> int \<Rightarrow> bool" where
  "positive_integer_ok hi n = (0 \<le> n \<and> n \<le> hi)"

definition OrderItem_clean_fields :: "int \<Rightarrow> OrderItem \<Rightarrow> error + unit" where
  "OrderItem_clean_fields hi item =
     (if positive_integer_ok hi (quantity item)
         \<and> decimal_ok 10 2 (unit_price item)
         \<and> decimal_ok 12 2 (total_price item)
         \<and> decimal_ok 5 2 (item_commission_rate item)
         \<and> decimal_ok 10 2 (item_commission_amount item)
         \<and> choice_ok OrderItem_STATUS_CHOICES (item_status item)
      then Inr () else Inl ValidationError)"

definition OrderItem_table_ok :: "OrderItem list \<Rightarrow> bool" where
  "OrderItem_table_ok rows =
     (distinct (map item_id rows) \<and> list_all (\<lambda>r. 0 \<le> quantity r) rows)"

subsection \<open>payments/models.py: Commission\<close>

definition Commission_STATUS_CHOICES :: "(string \<times> string) list" where
  "Commission_STATUS_CHOICES =
     [(''pending'', ''Pending''), (''cleared'', ''Cleared''),
      (''paid_out'', ''Paid Out''), (''disputed'', ''Disputed'')]"

record Commission =
  commission_id :: nat
  commission_order :: nat
  commission_shop :: nat
  commission_item :: nat
  commission_rate :: decimal
  gross_amount :: decimal
  commission_amount :: decimal
  platform_fee :: decimal
  net_amount :: decimal
  commission_status :: string

text \<open>
  \<open>Commission(\<dots>)\<close>: platform_fee and status have declared defaults; the rate and
  the three other amounts are passed by the caller, each on its own.
\<close>

definition Commission_init ::
  "nat \<Rightarrow> nat \<Rightarrow> nat \<Rightarrow> nat \<Rightarrow> decimal \<Rightarrow> decimal \<Rightarrow> decimal \<Rightarrow> decimal option \<Rightarrow> decimal
     \<Rightarrow> string option \<Rightarrow> Commission" where
  "Commission_init pk ord shp itm rate gross com fee net st =
     \<lparr> commission_id = pk, commission_order = ord, commission_shop = shp,
       commission_item = itm, commission_rate = rate, gross_amount = gross,
       commission_amount = com,
       platform_fee = (case fee of None \<Rightarrow> 0.00 | Some f \<Rightarrow> f),
       net_amount = net,
       commission_status = (case st of None \<Rightarrow> ''pending'' | Some s \<Rightarrow> s) \<rparr>"

definition Commission_clean_fields :: "Commission \<Rightarrow> error + unit" where
  "Commission_clean_fields c =
     (if decimal_ok 5 2 (commission_rate c)
         \<and> decimal_ok 12 2 (gross_amount c)
         \<and> decimal_ok 10 2 (commission_amount c)
         \<and> decimal_ok 10 2 (platform_fee c)
         \<and> decimal_ok 12 2 (net_amount c)
         \<and> choice_ok Commission_STATUS_CHOICES (commission_status c)
      then Inr () else Inl ValidationError)"


section \<open>The database and the deletion of a Shop\<close>

text \<open>
  The rows that decide what a Shop deletion does to Commissions.  Of Product,
  ProductVariant and Payout only the key and the columns that reference other
  tables or carry the payout's amount and status are kept.
\<close>

record Product =
  product_id :: nat
  product_shop :: nat
  product_category :: nat

record ProductVariant =
  variant_id :: nat
  variant_product :: nat

record Payout =
  payout_id :: nat
  payout_shop :: nat
  payout_amount :: decimal
  payout_currency :: string
  payout_status :: string

record db =
  shops :: "Shop list"
  products :: "Product list"
  variants :: "ProductVariant list"
  orders :: "Order list"
  order_items :: "OrderItem list"
  commissions :: "Commission list"
  payouts :: "Payout list"
  payout_transactions :: "PayoutTransaction list"

text \<open>
  \<open>shop.delete()\<close> runs Django's deletion collector over the declared
  \<open>on_delete\<close> rules.  From a Shop the collector follows
  \<^item> \<open>Product.shop\<close> (CASCADE), and from the products \<open>ProductVariant.product\<close>
    (CASCADE);
  \<^item> \<open>Commission.shop\<close> (CASCADE), and from the commissions
    \<open>PayoutTransaction.commission\<close> (CASCADE);
  \<^item> \<open>OrderItem.shop\<close>, \<open>OrderItem.product\<close>, \<open>OrderItem.variant\<close> and
    \<open>Payout.shop\<close> (RESTRICT): a row found this way that is not itself deleted
    through a CASCADE makes the whole deletion raise RestrictedError and nothing
    is deleted.  An OrderItem is cascaded only from its Order and a Payout from
    nothing, so neither is ever collected by a Shop deletion.
  The other tables that reference Shop (coupons, policies, campaigns, invoices,
  reports, reviews, settings, staff, statistics, roles: CASCADE or SET_NULL)
  are deleted or nulled with it; they neither restrict the deletion nor
  reference a Commission and are not part of \<open>db\<close>.
\<close>

definition Shop_delete :: "db \<Rightarrow> nat \<Rightarrow> error + db" where
  "Shop_delete d sid =
     (let pids = map product_id (filter (\<lambda>p. product_shop p = sid) (products d));
          vids = map variant_id (filter (\<lambda>v. variant_product v \<in> set pids) (variants d));
          cids = map commission_id (filter (\<lambda>c. commission_shop c = sid) (commissions d));
          restricted_items =
            filter (\<lambda>i. item_shop i = sid \<or> item_product i \<in> set pids
                         \<or> item_variant i \<in> set vids) (order_items d);
          restricted_payouts = filter (\<lambda>p. payout_shop p = sid) (payouts d)
      in if restricted_items \<noteq> [] \<or> restricted_payouts \<noteq> [] then Inl RestrictedError
         else Inr (d\<lparr> shops := filter (\<lambda>s. shop_id s \<noteq> sid) (shops d),
                       products := filter (\<lambda>p. product_shop p \<noteq> sid) (products d),
                       variants := filter (\<lambda>v. variant_product v \<notin> set pids) (variants d),
                       commissions := filter (\<lambda>c. commission_shop c \<noteq> sid) (commissions d),
                       payout_transactions :=
                         filter (\<lambda>t. pt_commission t \<notin> set cids) (payout_transactions d) \<rparr>))"

text \<open>
  Every Commission references an existing OrderItem, and the shop it names is
  the shop that sells that item.  The schema declares the two foreign keys
  separately and does not relate them.
\<close>

definition commissions_follow_items :: "db \<Rightarrow> bool" where
  "commissions_follow_items d =
     list_all (\<lambda>c. list_ex (\<lambda>i. item_id i = commission_item c
                                   \<and> item_shop i = commission_shop c) (order_items d))
       (commissions d)"

subsection \<open>Inserting an OrderItem\<close>

text \<open>
  \<open>OrderItem.objects.create(\<dots>)\<close>: the INSERT of one row.  \<open>item\<close> carries the
  field values and \<open>seq\<close> is the key the table's sequence hands out for it.
  In the order in which the failures arise:
  \<^item> the driver refuses an integer outside the range it can bind, from
    \<open>- int_max - 1\<close> to \<open>int_max\<close> (the sqlite3 driver raises OverflowError
    beyond 64 bits; PostgreSQL reports its 32-bit column range as a DataError,
    the same branch here);
  \<^item> the column check \<open>quantity >= 0\<close> of the PositiveIntegerField and the
    primary key are checked by the INSERT (IntegrityError);
  \<^item> the four foreign keys must reference existing rows (IntegrityError).
  A refused INSERT stores nothing.  The prices, the commission columns and the
  status are stored as passed: how the backend formats or refuses a decimal
  that does not fit its column is not part of the function, and no statement
  below depends on it.
\<close>

definition OrderItem_create :: "int \<Rightarrow> nat \<Rightarrow> db \<Rightarrow> OrderItem \<Rightarrow> error + db" where
  "OrderItem_create int_max seq d item =
     (if quantity item < - int_max - 1 \<or> int_max < quantity item then Inl OverflowError
      else if quantity item < 0 then Inl IntegrityError
      else if seq \<in> set (map item_id (order_items d)) then Inl IntegrityError
      else if item_order item \<notin> set (map order_id (orders d))
              \<or> item_product item \<notin> set (map product_id (products d))
              \<or> item_variant item \<notin> set (map variant_id (variants d))
              \<or> item_shop item \<notin> set (map shop_id (shops d))
      then Inl IntegrityError
      else Inr (d\<lparr> order_items := order_items d @ [item\<lparr> item_id := seq \<rparr>] \<rparr>))"


section \<open>Coupons\<close>

subsection \<open>discounts/models.py: Coupon\<close>

definition DISCOUNT_TYPE_CHOICES :: "(string \<times> string) list" where
  "DISCOUNT_TYPE_CHOICES =
     [(''percentage'', ''Percentage''), (''fixed_amount'', ''Fixed Amount''),
      (''free_shipping'', ''Free Shipping'')]"

text \<open>Nullable columns are options; \<open>starts_at\<close> and \<open>expires_at\<close> are instants.\<close>

record Coupon =
  coupon_id :: nat
  coupon_shop :: "nat option"
  coupon_code :: string
  discount_type :: string
  discount_value :: decimal
  minimum_order_amount :: "decimal option"
  maximum_discount_amount :: "decimal option"
  is_active :: bool
  starts_at :: "nat option"
  expires_at :: "nat option"
  usage_limit :: "int option"
  usage_limit_per_customer :: "int option"

section \<open>The operations the specification designs\<close>

text \<open>
  The repository holds no code for the order aggregate, the discount engine or
  the commission calculator; the specification designs them in its sections
  4.2 to 4.4.  The definitions of this section follow those sections and work
  on the records and tables of the schema above.
\<close>

text \<open>
  Modelled from the spec: the rounding of the commission calculator (4.4),
  absent from the repository: "rounded to the currency's minor-unit precision
  using round-half-to-even".  The minor unit is the second decimal place of the
  schema's amount columns.
\<close>

definition round_half_even :: "rat \<Rightarrow> int" where
  "round_half_even x =
     (let f = \<lfloor>x\<rfloor>; r = x - of_int f
      in if r < 1 / 2 then f else if 1 / 2 < r then f + 1
         else if even f then f else f + 1)"

text \<open>
  Modelled from the spec: the quantisation to the minor unit used by the
  commission calculator (4.4), absent from the repository.
\<close>

definition quantize :: "decimal \<Rightarrow> decimal" where
  "quantize x = of_int (round_half_even (x * 100)) / 100"

text \<open>
  Modelled from the spec: the commission calculator (4.4), absent from the
  repository.  "commission_amount = gross_amount * rate / 100", rounded as
  above; "net_amount = gross_amount - commission_amount - platform_fee".  The
  rate is the snapshot the OrderItem carries (3: "snapshotted at creation"),
  the gross amount is the item's total price (glossary), and the platform fee,
  "a separate, independently configured flat or percentage fee", is the
  parameter \<open>fee\<close>.  A new Commission has the declared default status.
\<close>

definition calculate_commission :: "(OrderItem \<Rightarrow> decimal) \<Rightarrow> nat \<Rightarrow> OrderItem \<Rightarrow> Commission" where
  "calculate_commission fee pk item =
     (let gross = total_price item;
          rate = item_commission_rate item;
          com = quantize (gross * rate / 100)
      in Commission_init pk (item_order item) (item_shop item) (item_id item) rate gross com
           (Some (fee item)) (gross - com - fee item) None)"

text \<open>
  Modelled from the spec: the loop of the commission calculator over the items
  of a confirmed order (4.4: "for each OrderItem in a confirmed order"; 3:
  "Commission: one per OrderItem"), absent from the repository.  Each
  Commission is inserted with the key the database assigns.
\<close>

fun generate_commissions ::
  "(OrderItem \<Rightarrow> decimal) \<Rightarrow> Commission list \<Rightarrow> OrderItem list \<Rightarrow> Commission list" where
  "generate_commissions fee coms [] = coms"
| "generate_commissions fee coms (item # items) =
     generate_commissions fee
       (coms @ [calculate_commission fee (auto_pk (map commission_id coms)) item]) items"

text \<open>
  Modelled from the spec: \<open>confirm()\<close> of the order aggregate (4.2), absent from
  the repository: "transitions status pending->processing \<dots> emits a
  ConfirmedOrder event consumed by the Commission Calculator.  Idempotent:
  confirming an already-confirmed order is a no-op returning the same result,
  not an error."  The order is read from the store by its id.  An order that is
  processing, shipped or delivered has been confirmed; from cancelled, refunded
  or failed the transition is illegal (InvalidTransition).  The specification
  names no error for an unknown order id; ValidationError (malformed input) is
  used.
\<close>

definition confirm :: "(OrderItem \<Rightarrow> decimal) \<Rightarrow> db \<Rightarrow> nat \<Rightarrow> error + db" where
  "confirm fee d oid =
     (case find (\<lambda>ord. order_id ord = oid) (orders d) of
        None \<Rightarrow> Inl ValidationError
      | Some ord \<Rightarrow>
          if order_status ord = ''pending'' then
            Inr (d\<lparr> orders :=
                      map (\<lambda>ord. if order_id ord = oid
                                  then ord\<lparr> order_status := ''processing'' \<rparr> else ord)
                        (orders d),
                    commissions :=
                      generate_commissions fee (commissions d)
                        (filter (\<lambda>item. item_order item = oid) (order_items d)) \<rparr>)
          else if order_status ord \<in> {''processing'', ''shipped'', ''delivered''} then Inr d
          else Inl InvalidTransition)"

text \<open>
  Modelled from the spec: \<open>applyDiscount(discountDecision)\<close> of the order
  aggregate (4.2), absent from the repository: "sets discount_amount and
  recomputes total; must be called before confirm(); fails with InvalidState if
  already confirmed", with the total of the invariant of section 3.
\<close>

definition applyDiscount :: "Order \<Rightarrow> decimal \<Rightarrow> error + Order" where
  "applyDiscount ord amount =
     (if order_status ord \<noteq> ''pending'' then Inl InvalidState
      else Inr (ord\<lparr> discount_amount := amount,
                     total_amount :=
                       subtotal ord + tax_amount ord + shipping_amount ord - amount \<rparr>))"

text \<open>
  Modelled from the spec: the discount-type computation of the discount engine
  (4.3), absent from the repository: "percentage capped by
  maximum_discount_amount; fixed_amount capped at subtotal; free_shipping
  zeroes shipping_amount only".  The decision is an amount, so free shipping is
  the amount that cancels the order's shipping_amount in the total; any other
  type gives the zero-amount decision.
\<close>

definition coupon_discount :: "Coupon \<Rightarrow> Order \<Rightarrow> decimal" where
  "coupon_discount c ord =
     (if discount_type c = ''percentage'' then
        (case maximum_discount_amount c of
           None \<Rightarrow> subtotal ord * discount_value c / 100
         | Some cap \<Rightarrow> min (subtotal ord * discount_value c / 100) cap)
      else if discount_type c = ''fixed_amount'' then min (discount_value c) (subtotal ord)
      else if discount_type c = ''free_shipping'' then shipping_amount ord
      else 0)"

text \<open>
  Modelled from the spec: \<open>ApplyCoupon\<close> (6) through the discount engine (4.3),
  absent from the repository, followed by \<open>applyDiscount\<close>: "evaluates coupon
  eligibility in order: active window check -> minimum order amount check ->
  per-customer and global usage-limit check (reads CouponUsage count) ->
  discount-type computation", failing with CouponInvalid "(expired, inactive,
  usage exhausted)" or CouponNotApplicable "(minimum not met)".  \<open>now\<close> is the
  instant of the call and \<open>usages\<close> the CouponUsage table it reads.
\<close>

definition ApplyCoupon :: "nat \<Rightarrow> CouponUsage list \<Rightarrow> Coupon \<Rightarrow> Order \<Rightarrow> error + Order" where
  "ApplyCoupon now usages c ord =
     (if \<not> is_active c
         \<or> (case starts_at c of None \<Rightarrow> False | Some t \<Rightarrow> now < t)
         \<or> (case expires_at c of None \<Rightarrow> False | Some t \<Rightarrow> t < now)
      then Inl CouponInvalid
      else if (case minimum_order_amount c of None \<Rightarrow> False | Some m \<Rightarrow> subtotal ord < m)
      then Inl CouponNotApplicable
      else if (case usage_limit_per_customer c of None \<Rightarrow> False
               | Some n \<Rightarrow> n \<le> int (length (filter (\<lambda>u. usage_coupon u = coupon_id c
                                                         \<and> usage_user u = customer ord) usages)))
              \<or> (case usage_limit c of None \<Rightarrow> False
                 | Some n \<Rightarrow> n \<le> int (length (filter (\<lambda>u. usage_coupon u = coupon_id c) usages)))
      then Inl CouponInvalid
      else applyDiscount ord (coupon_discount c ord))"


section \<open>Properties\<close>

subsection \<open>Status choices\<close>

text \<open>
  C8.  The statuses an OrderItem can take are pending, shipped, delivered,
  cancelled and refunded, and each of them is also a status an Order can take.
\<close>

theorem OrderItem_statuses_within_Order_statuses:
  "set (map fst OrderItem_STATUS_CHOICES)
     = {''pending'', ''shipped'', ''delivered'', ''cancelled'', ''refunded''}
   \<and> set (map fst OrderItem_STATUS_CHOICES) \<subseteq> set (map fst Order_STATUS_CHOICES)"
  by (simp add: OrderItem_STATUS_CHOICES_def Order_STATUS_CHOICES_def)

subsection \<open>Shop defaults\<close>

text \<open>
  C10.  A Shop created without explicit values for status, commission_rate and
  minimum_payout_amount starts with status 'pending', commission rate 10.00 and
  minimum payout amount 50.00; the status is one of the declared choices and
  both amounts fit their declared precision.
\<close>

theorem Shop_declared_defaults:
  "shop_status (Shop_init pk own name slug None None None) = ''pending''
   \<and> shop_commission_rate (Shop_init pk own name slug None None None) = 10
   \<and> minimum_payout_amount (Shop_init pk own name slug None None None) = 50
   \<and> choice_ok Shop_STATUS_CHOICES (shop_status (Shop_init pk own name slug None None None))
   \<and> decimal_ok 5 2 (shop_commission_rate (Shop_init pk own name slug None None None))
   \<and> decimal_ok 10 2 (minimum_payout_amount (Shop_init pk own name slug None None None))"
  by (simp add: Shop_init_def choice_ok_def Shop_STATUS_CHOICES_def decimal_ok_def)

subsection \<open>Primary keys and \<open>unique_together\<close>\<close>

lemma fold_max_ge: "fold max pks (m::nat) \<ge> m"
  by (induction pks arbitrary: m) (auto intro: order_trans [OF max.cobounded2])

lemma fold_max_bound: "k \<in> set pks \<Longrightarrow> k \<le> fold max pks (m::nat)"
proof (induction pks arbitrary: m)
  case Nil
  then show ?case by simp
next
  case (Cons p pks)
  show ?case
  proof (cases "k = p")
    case True
    have "p \<le> max p m" by simp
    also have "\<dots> \<le> fold max pks (max p m)" by (rule fold_max_ge)
    finally show ?thesis using True by simp
  next
    case False
    with Cons.prems have "k \<in> set pks" by simp
    then show ?thesis using Cons.IH by simp
  qed
qed

lemma auto_pk_fresh: "auto_pk pks \<notin> set pks"
proof
  assume "auto_pk pks \<in> set pks"
  then have "auto_pk pks \<le> fold max pks 0" by (rule fold_max_bound)
  then show False by (simp add: auto_pk_def)
qed

lemma distinct_key_filter_le_1:
  "distinct (map key rows) \<Longrightarrow> length (filter (\<lambda>r. key r = k) rows) \<le> 1"
proof (induction rows)
  case Nil
  then show ?case by simp
next
  case (Cons r rows)
  show ?case
  proof (cases "key r = k")
    case True
    with Cons.prems have "k \<notin> key ` set rows" by auto
    then have "filter (\<lambda>r. key r = k) rows = []"
      by (auto simp: filter_empty_conv)
    with True show ?thesis by simp
  next
    case False
    with Cons show ?thesis by simp
  qed
qed

lemma distinct_key_same_row:
  assumes "distinct (map key rows)" "r1 \<in> set rows" "r2 \<in> set rows" "key r1 = key r2"
  shows "r1 = r2"
  using assms by (meson distinct_map inj_on_def)

text \<open>
  C9.  In an OrderAddress table that satisfies its declared constraints there is
  at most one row per order and address type; creating an address keeps the
  constraints, and creating a second address of a type the order already has is
  refused with IntegrityError.
\<close>

theorem OrderAddress_at_most_one_per_type:
  assumes "OrderAddress_table_ok rows"
  shows "length (filter (\<lambda>r. address_order r = ord \<and> address_type r = ty) rows) \<le> 1
    \<and> (\<forall>rows'. OrderAddress_create rows ord ty line1 cty ctry pcode = Inr rows'
          \<longrightarrow> OrderAddress_table_ok rows'
            \<and> OrderAddress_create rows' ord ty line1' cty' ctry' pcode' = Inl IntegrityError)"
proof -
  from assms have d: "distinct (map (\<lambda>r. (address_order r, address_type r)) rows)"
    by (simp add: OrderAddress_table_ok_def)
  have "length (filter (\<lambda>r. (address_order r, address_type r) = (ord, ty)) rows) \<le> 1"
    using d by (rule distinct_key_filter_le_1)
  then have one: "length (filter (\<lambda>r. address_order r = ord \<and> address_type r = ty) rows) \<le> 1"
    by simp
  have fresh: "auto_pk (map address_id rows) \<notin> set (map address_id rows)"
    by (rule auto_pk_fresh)
  have "OrderAddress_table_ok rows'
      \<and> OrderAddress_create rows' ord ty line1' cty' ctry' pcode' = Inl IntegrityError"
    if "OrderAddress_create rows ord ty line1 cty ctry pcode = Inr rows'" for rows'
    using that assms fresh
    by (auto simp: OrderAddress_create_def OrderAddress_table_ok_def split: if_splits)
  with one show ?thesis by blast
qed

theorem OrderAddress_at_most_one_per_type_witness:
  "OrderAddress_table_ok
     [\<lparr> address_id = 1, address_order = 7, address_type = ''shipping'',
        address_line1 = ''1 Main St'', city = ''Dhaka'', country = ''BD'',
        postal_code = ''1200'' \<rparr>]
   \<and> OrderAddress_create
       [\<lparr> address_id = 1, address_order = 7, address_type = ''shipping'',
          address_line1 = ''1 Main St'', city = ''Dhaka'', country = ''BD'',
          postal_code = ''1200'' \<rparr>]
       7 ''billing'' ''2 Side St'' ''Dhaka'' ''BD'' ''1200''
     = Inr [\<lparr> address_id = 1, address_order = 7, address_type = ''shipping'',
              address_line1 = ''1 Main St'', city = ''Dhaka'', country = ''BD'',
              postal_code = ''1200'' \<rparr>,
            \<lparr> address_id = 2, address_order = 7, address_type = ''billing'',
              address_line1 = ''2 Side St'', city = ''Dhaka'', country = ''BD'',
              postal_code = ''1200'' \<rparr>]
   \<and> OrderAddress_create
       [\<lparr> address_id = 1, address_order = 7, address_type = ''shipping'',
          address_line1 = ''1 Main St'', city = ''Dhaka'', country = ''BD'',
          postal_code = ''1200'' \<rparr>,
        \<lparr> address_id = 2, address_order = 7, address_type = ''billing'',
          address_line1 = ''2 Side St'', city = ''Dhaka'', country = ''BD'',
          postal_code = ''1200'' \<rparr>]
       7 ''billing'' ''3 Other St'' ''Dhaka'' ''BD'' ''1200''
     = Inl IntegrityError
   \<and> length (filter (\<lambda>r. address_order r = 7 \<and> address_type r = ''shipping'')
       [\<lparr> address_id = 1, address_order = 7, address_type = ''shipping'',
          address_line1 = ''1 Main St'', city = ''Dhaka'', country = ''BD'',
          postal_code = ''1200'' \<rparr>]) \<le> 1"
proof -
  have ok: "OrderAddress_table_ok
     [\<lparr> address_id = 1, address_order = 7, address_type = ''shipping'',
        address_line1 = ''1 Main St'', city = ''Dhaka'', country = ''BD'',
        postal_code = ''1200'' \<rparr>]"
    by (simp add: OrderAddress_table_ok_def)
  have cr: "OrderAddress_create
       [\<lparr> address_id = 1, address_order = 7, address_type = ''shipping'',
          address_line1 = ''1 Main St'', city = ''Dhaka'', country = ''BD'',
          postal_code = ''1200'' \<rparr>]
       7 ''billing'' ''2 Side St'' ''Dhaka'' ''BD'' ''1200''
     = Inr [\<lparr> address_id = 1, address_order = 7, address_type = ''shipping'',
              address_line1 = ''1 Main St'', city = ''Dhaka'', country = ''BD'',
              postal_code = ''1200'' \<rparr>,
            \<lparr> address_id = 2, address_order = 7, address_type = ''billing'',
              address_line1 = ''2 Side St'', city = ''Dhaka'', country = ''BD'',
              postal_code = ''1200'' \<rparr>]"
    by (simp add: OrderAddress_create_def auto_pk_def)
  from OrderAddress_at_most_one_per_type [OF ok, of 7 "''billing''" "''2 Side St''"
      "''Dhaka''" "''BD''" "''1200''" "''3 Other St''" "''Dhaka''" "''BD''" "''1200''"] cr ok
  show ?thesis by simp
qed

text \<open>
  C4 (as the schema has it).  In a PayoutTransaction table that satisfies its
  declared constraints, two distinct rows that reference the same Commission
  belong to different Payouts: the (payout, commission) uniqueness keeps a
  Commission from being linked twice to one Payout.  Creating a row keeps the
  constraints, and linking the same Commission to the same Payout again is
  refused with IntegrityError.
\<close>

theorem PayoutTransaction_unique_within_a_payout:
  assumes "PayoutTransaction_table_ok rows"
  shows "(\<forall>r1 \<in> set rows. \<forall>r2 \<in> set rows.
            r1 \<noteq> r2 \<and> pt_commission r1 = pt_commission r2 \<longrightarrow> pt_payout r1 \<noteq> pt_payout r2)
    \<and> (\<forall>rows'. PayoutTransaction_create rows p c a = Inr rows'
          \<longrightarrow> PayoutTransaction_table_ok rows'
            \<and> PayoutTransaction_create rows' p c a' = Inl IntegrityError)"
proof -
  from assms have d: "distinct (map (\<lambda>r. (pt_payout r, pt_commission r)) rows)"
    by (simp add: PayoutTransaction_table_ok_def)
  have pairs: "pt_payout r1 \<noteq> pt_payout r2"
    if "r1 \<in> set rows" "r2 \<in> set rows" "r1 \<noteq> r2" "pt_commission r1 = pt_commission r2"
    for r1 r2
  proof
    assume "pt_payout r1 = pt_payout r2"
    with that(4) have "(pt_payout r1, pt_commission r1) = (pt_payout r2, pt_commission r2)"
      by simp
    with d that(1,2) have "r1 = r2" by (rule distinct_key_same_row)
    with that(3) show False by simp
  qed
  have fresh: "auto_pk (map payout_transaction_id rows) \<notin> set (map payout_transaction_id rows)"
    by (rule auto_pk_fresh)
  have "PayoutTransaction_table_ok rows'
      \<and> PayoutTransaction_create rows' p c a' = Inl IntegrityError"
    if "PayoutTransaction_create rows p c a = Inr rows'" for rows'
    using that assms fresh
    by (auto simp: PayoutTransaction_create_def PayoutTransaction_table_ok_def split: if_splits)
  with pairs show ?thesis by blast
qed

theorem PayoutTransaction_unique_within_a_payout_witness:
  "PayoutTransaction_table_ok
     [\<lparr> payout_transaction_id = 1, pt_payout = 1, pt_commission = 5, pt_amount = 44 \<rparr>,
      \<lparr> payout_transaction_id = 2, pt_payout = 2, pt_commission = 5, pt_amount = 44 \<rparr>]
   \<and> \<lparr> payout_transaction_id = 1, pt_payout = 1, pt_commission = 5, pt_amount = 44 \<rparr>
       \<noteq> \<lparr> payout_transaction_id = 2, pt_payout = 2, pt_commission = 5, pt_amount = 44 \<rparr>
   \<and> pt_commission \<lparr> payout_transaction_id = 1, pt_payout = 1, pt_commission = 5, pt_amount = 44 \<rparr>
       = pt_commission \<lparr> payout_transaction_id = 2, pt_payout = 2, pt_commission = 5, pt_amount = 44 \<rparr>
   \<and> pt_payout \<lparr> payout_transaction_id = 1, pt_payout = 1, pt_commission = 5, pt_amount = 44 \<rparr>
       \<noteq> pt_payout \<lparr> payout_transaction_id = 2, pt_payout = 2, pt_commission = 5, pt_amount = 44 \<rparr>
   \<and> PayoutTransaction_create
       [\<lparr> payout_transaction_id = 1, pt_payout = 1, pt_commission = 5, pt_amount = 44 \<rparr>,
        \<lparr> payout_transaction_id = 2, pt_payout = 2, pt_commission = 5, pt_amount = 44 \<rparr>]
       2 6 20
     = Inr [\<lparr> payout_transaction_id = 1, pt_payout = 1, pt_commission = 5, pt_amount = 44 \<rparr>,
            \<lparr> payout_transaction_id = 2, pt_payout = 2, pt_commission = 5, pt_amount = 44 \<rparr>,
            \<lparr> payout_transaction_id = 3, pt_payout = 2, pt_commission = 6, pt_amount = 20 \<rparr>]
   \<and> PayoutTransaction_table_ok
       [\<lparr> payout_transaction_id = 1, pt_payout = 1, pt_commission = 5, pt_amount = 44 \<rparr>,
        \<lparr> payout_transaction_id = 2, pt_payout = 2, pt_commission = 5, pt_amount = 44 \<rparr>,
        \<lparr> payout_transaction_id = 3, pt_payout = 2, pt_commission = 6, pt_amount = 20 \<rparr>]
   \<and> PayoutTransaction_create
       [\<lparr> payout_transaction_id = 1, pt_payout = 1, pt_commission = 5, pt_amount = 44 \<rparr>,
        \<lparr> payout_transaction_id = 2, pt_payout = 2, pt_commission = 5, pt_amount = 44 \<rparr>,
        \<lparr> payout_transaction_id = 3, pt_payout = 2, pt_commission = 6, pt_amount = 20 \<rparr>]
       2 6 20
     = Inl IntegrityError"
proof -
  have ok: "PayoutTransaction_table_ok
     [\<lparr> payout_transaction_id = 1, pt_payout = 1, pt_commission = 5, pt_amount = 44 \<rparr>,
      \<lparr> payout_transaction_id = 2, pt_payout = 2, pt_commission = 5, pt_amount = 44 \<rparr>]"
    by (simp add: PayoutTransaction_table_ok_def)
  have cr: "PayoutTransaction_create
       [\<lparr> payout_transaction_id = 1, pt_payout = 1, pt_commission = 5, pt_amount = 44 \<rparr>,
        \<lparr> payout_transaction_id = 2, pt_payout = 2, pt_commission = 5, pt_amount = 44 \<rparr>]
       2 6 20
     = Inr [\<lparr> payout_transaction_id = 1, pt_payout = 1, pt_commission = 5, pt_amount = 44 \<rparr>,
            \<lparr> payout_transaction_id = 2, pt_payout = 2, pt_commission = 5, pt_amount = 44 \<rparr>,
            \<lparr> payout_transaction_id = 3, pt_payout = 2, pt_commission = 6, pt_amount = 20 \<rparr>]"
    by (simp add: PayoutTransaction_create_def auto_pk_def)
  from PayoutTransaction_unique_within_a_payout [OF ok, of 2 6 20 20] cr ok
  show ?thesis by simp
qed

text \<open>
  The claim as stated fails: the same Commission is linked to Payout 1 and then
  to Payout 2; both inserts are accepted, the table satisfies its constraints,
  and the two distinct rows belong to different Payouts.
\<close>

theorem PayoutTransaction_commission_in_two_payouts:
  "PayoutTransaction_create [] 1 5 44
     = Inr [\<lparr> payout_transaction_id = 1, pt_payout = 1, pt_commission = 5, pt_amount = 44 \<rparr>]
   \<and> PayoutTransaction_create
       [\<lparr> payout_transaction_id = 1, pt_payout = 1, pt_commission = 5, pt_amount = 44 \<rparr>]
       2 5 44
     = Inr [\<lparr> payout_transaction_id = 1, pt_payout = 1, pt_commission = 5, pt_amount = 44 \<rparr>,
            \<lparr> payout_transaction_id = 2, pt_payout = 2, pt_commission = 5, pt_amount = 44 \<rparr>]
   \<and> PayoutTransaction_table_ok
       [\<lparr> payout_transaction_id = 1, pt_payout = 1, pt_commission = 5, pt_amount = 44 \<rparr>,
        \<lparr> payout_transaction_id = 2, pt_payout = 2, pt_commission = 5, pt_amount = 44 \<rparr>]
   \<and> \<lparr> payout_transaction_id = 1, pt_payout = 1, pt_commission = 5, pt_amount = 44 \<rparr>
       \<noteq> \<lparr> payout_transaction_id = 2, pt_payout = 2, pt_commission = 5, pt_amount = 44 \<rparr>
   \<and> pt_commission \<lparr> payout_transaction_id = 1, pt_payout = 1, pt_commission = 5, pt_amount = 44 \<rparr>
       = pt_commission \<lparr> payout_transaction_id = 2, pt_payout = 2, pt_commission = 5, pt_amount = 44 \<rparr>
   \<and> pt_payout \<lparr> payout_transaction_id = 1, pt_payout = 1, pt_commission = 5, pt_amount = 44 \<rparr>
       \<noteq> pt_payout \<lparr> payout_transaction_id = 2, pt_payout = 2, pt_commission = 5, pt_amount = 44 \<rparr>"
  by (simp add: PayoutTransaction_create_def PayoutTransaction_table_ok_def auto_pk_def)

subsection \<open>Deleting a Shop\<close>

lemma Shop_delete_commissions_eq:
  "Shop_delete d sid = Inr d' \<Longrightarrow>
     commissions d' = filter (\<lambda>c. commission_shop c \<noteq> sid) (commissions d)"
  by (auto simp: Shop_delete_def Let_def split: if_splits)

lemma Shop_delete_restricted_by_item:
  "i \<in> set (order_items d) \<Longrightarrow> item_shop i = sid \<Longrightarrow> Shop_delete d sid = Inl RestrictedError"
  by (auto simp: Shop_delete_def Let_def filter_empty_conv)

text \<open>
  C6 (as the schema has it).  A successful Shop deletion removes exactly the
  Commissions that reference the deleted shop (\<open>Commission.shop\<close> is CASCADE)
  and leaves the Commissions of every other shop unchanged and present.  When
  every Commission names the shop that sells its OrderItem, a Shop that has a
  Commission cannot be deleted (the RESTRICT of \<open>OrderItem.shop\<close> raises
  RestrictedError and nothing changes), so every Shop deletion leaves all
  Commission records unchanged and present.
\<close>

theorem Shop_delete_keeps_consistent_commissions:
  "(Shop_delete d sid = Inr d' \<longrightarrow>
      commissions d' = filter (\<lambda>c. commission_shop c \<noteq> sid) (commissions d))
   \<and> (commissions_follow_items d \<and> Shop_delete d sid = Inr d' \<longrightarrow>
        commissions d' = commissions d)
   \<and> (commissions_follow_items d \<and> list_ex (\<lambda>c. commission_shop c = sid) (commissions d) \<longrightarrow>
        Shop_delete d sid = Inl RestrictedError)"
proof -
  have restricted: "Shop_delete d sid = Inl RestrictedError"
    if "commissions_follow_items d" "c \<in> set (commissions d)" "commission_shop c = sid" for c
  proof -
    from that(1,2) obtain i where "i \<in> set (order_items d)" "item_shop i = commission_shop c"
      by (auto simp: commissions_follow_items_def list_all_iff list_ex_iff)
    with that(3) show ?thesis by (simp add: Shop_delete_restricted_by_item)
  qed
  have kept: "commissions d' = commissions d"
    if f: "commissions_follow_items d" and del: "Shop_delete d sid = Inr d'"
  proof -
    have "commission_shop c \<noteq> sid" if "c \<in> set (commissions d)" for c
    proof
      assume "commission_shop c = sid"
      with f that have "Shop_delete d sid = Inl RestrictedError" by (rule restricted)
      with del show False by simp
    qed
    then have "filter (\<lambda>c. commission_shop c \<noteq> sid) (commissions d) = commissions d"
      by (simp add: filter_id_conv)
    with Shop_delete_commissions_eq [OF del] show ?thesis by simp
  qed
  from restricted kept Shop_delete_commissions_eq [of d sid d'] show ?thesis
    by (auto simp: list_ex_iff)
qed

theorem Shop_delete_keeps_consistent_commissions_witness:
  "commissions_follow_items
     (\<lparr> shops = [Shop_init 1 ''u-1'' ''A'' ''a'' None None None,
                Shop_init 2 ''u-2'' ''B'' ''b'' None None None],
       products = [\<lparr> product_id = 1, product_shop = 1, product_category = 1 \<rparr>],
       variants = [\<lparr> variant_id = 1, variant_product = 1 \<rparr>],
       orders = [Order_init 1 ''u-3'' ''ORD-1'' None 50 None None None 50 ''USD''],
       order_items =
         [\<lparr> item_id = 1, item_order = 1, item_product = 1, item_variant = 1, item_shop = 1,
            quantity = 1, unit_price = 50, total_price = 50, item_commission_rate = 10,
            item_commission_amount = 5, item_status = ''pending'' \<rparr>],
       commissions = [Commission_init 1 1 1 1 10 50 5 (Some 1) 44 None],
       payouts = [], payout_transactions = [] \<rparr>)
   \<and> list_ex (\<lambda>c. commission_shop c = 1)
       (commissions
     (\<lparr> shops = [Shop_init 1 ''u-1'' ''A'' ''a'' None None None,
                Shop_init 2 ''u-2'' ''B'' ''b'' None None None],
       products = [\<lparr> product_id = 1, product_shop = 1, product_category = 1 \<rparr>],
       variants = [\<lparr> variant_id = 1, variant_product = 1 \<rparr>],
       orders = [Order_init 1 ''u-3'' ''ORD-1'' None 50 None None None 50 ''USD''],
       order_items =
         [\<lparr> item_id = 1, item_order = 1, item_product = 1, item_variant = 1, item_shop = 1,
            quantity = 1, unit_price = 50, total_price = 50, item_commission_rate = 10,
            item_commission_amount = 5, item_status = ''pending'' \<rparr>],
       commissions = [Commission_init 1 1 1 1 10 50 5 (Some 1) 44 None],
       payouts = [], payout_transactions = [] \<rparr>))
   \<and> Shop_delete
     (\<lparr> shops = [Shop_init 1 ''u-1'' ''A'' ''a'' None None None,
                Shop_init 2 ''u-2'' ''B'' ''b'' None None None],
       products = [\<lparr> product_id = 1, product_shop = 1, product_category = 1 \<rparr>],
       variants = [\<lparr> variant_id = 1, variant_product = 1 \<rparr>],
       orders = [Order_init 1 ''u-3'' ''ORD-1'' None 50 None None None 50 ''USD''],
       order_items =
         [\<lparr> item_id = 1, item_order = 1, item_product = 1, item_variant = 1, item_shop = 1,
            quantity = 1, unit_price = 50, total_price = 50, item_commission_rate = 10,
            item_commission_amount = 5, item_status = ''pending'' \<rparr>],
       commissions = [Commission_init 1 1 1 1 10 50 5 (Some 1) 44 None],
       payouts = [], payout_transactions = [] \<rparr>) 1 = Inl RestrictedError
   \<and> map_sum id commissions (Shop_delete
     (\<lparr> shops = [Shop_init 1 ''u-1'' ''A'' ''a'' None None None,
                Shop_init 2 ''u-2'' ''B'' ''b'' None None None],
       products = [\<lparr> product_id = 1, product_shop = 1, product_category = 1 \<rparr>],
       variants = [\<lparr> variant_id = 1, variant_product = 1 \<rparr>],
       orders = [Order_init 1 ''u-3'' ''ORD-1'' None 50 None None None 50 ''USD''],
       order_items =
         [\<lparr> item_id = 1, item_order = 1, item_product = 1, item_variant = 1, item_shop = 1,
            quantity = 1, unit_price = 50, total_price = 50, item_commission_rate = 10,
            item_commission_amount = 5, item_status = ''pending'' \<rparr>],
       commissions = [Commission_init 1 1 1 1 10 50 5 (Some 1) 44 None],
       payouts = [], payout_transactions = [] \<rparr>) 2) = Inr [Commission_init 1 1 1 1 10 50 5 (Some 1) 44 None]"
proof -
  let ?d = "(\<lparr> shops = [Shop_init 1 ''u-1'' ''A'' ''a'' None None None,
                Shop_init 2 ''u-2'' ''B'' ''b'' None None None],
       products = [\<lparr> product_id = 1, product_shop = 1, product_category = 1 \<rparr>],
       variants = [\<lparr> variant_id = 1, variant_product = 1 \<rparr>],
       orders = [Order_init 1 ''u-3'' ''ORD-1'' None 50 None None None 50 ''USD''],
       order_items =
         [\<lparr> item_id = 1, item_order = 1, item_product = 1, item_variant = 1, item_shop = 1,
            quantity = 1, unit_price = 50, total_price = 50, item_commission_rate = 10,
            item_commission_amount = 5, item_status = ''pending'' \<rparr>],
       commissions = [Commission_init 1 1 1 1 10 50 5 (Some 1) 44 None],
       payouts = [], payout_transactions = [] \<rparr>)"
  have f: "commissions_follow_items ?d"
    by (simp add: commissions_follow_items_def Commission_init_def)
  have e: "list_ex (\<lambda>c. commission_shop c = 1) (commissions ?d)"
    by (simp add: Commission_init_def)
  have del: "Shop_delete ?d 2 = Inr (?d\<lparr> shops := [Shop_init 1 ''u-1'' ''A'' ''a'' None None None] \<rparr>)"
    by (simp add: Shop_delete_def Shop_init_def Commission_init_def)
  from Shop_delete_keeps_consistent_commissions [of ?d 1]
       Shop_delete_keeps_consistent_commissions
         [of ?d 2 "?d\<lparr> shops := [Shop_init 1 ''u-1'' ''A'' ''a'' None None None] \<rparr>"]
       f e del
  show ?thesis by simp
qed

text \<open>
  The claim as stated fails: the Commission names shop 1 while its OrderItem is
  sold by shop 2.  Nothing restricts the deletion of shop 1, and the Commission
  is deleted with it.
\<close>

theorem Shop_delete_cascades_into_commissions:
  "commissions
     (\<lparr> shops = [Shop_init 1 ''u-1'' ''A'' ''a'' None None None,
                Shop_init 2 ''u-2'' ''B'' ''b'' None None None],
       products = [\<lparr> product_id = 1, product_shop = 2, product_category = 1 \<rparr>],
       variants = [\<lparr> variant_id = 1, variant_product = 1 \<rparr>],
       orders = [Order_init 1 ''u-3'' ''ORD-1'' None 50 None None None 50 ''USD''],
       order_items =
         [\<lparr> item_id = 1, item_order = 1, item_product = 1, item_variant = 1, item_shop = 2,
            quantity = 1, unit_price = 50, total_price = 50, item_commission_rate = 10,
            item_commission_amount = 5, item_status = ''pending'' \<rparr>],
       commissions = [Commission_init 1 1 1 1 10 50 5 (Some 1) 44 None],
       payouts = [], payout_transactions = [] \<rparr>) = [Commission_init 1 1 1 1 10 50 5 (Some 1) 44 None]
   \<and> map_sum id commissions (Shop_delete
     (\<lparr> shops = [Shop_init 1 ''u-1'' ''A'' ''a'' None None None,
                Shop_init 2 ''u-2'' ''B'' ''b'' None None None],
       products = [\<lparr> product_id = 1, product_shop = 2, product_category = 1 \<rparr>],
       variants = [\<lparr> variant_id = 1, variant_product = 1 \<rparr>],
       orders = [Order_init 1 ''u-3'' ''ORD-1'' None 50 None None None 50 ''USD''],
       order_items =
         [\<lparr> item_id = 1, item_order = 1, item_product = 1, item_variant = 1, item_shop = 2,
            quantity = 1, unit_price = 50, total_price = 50, item_commission_rate = 10,
            item_commission_amount = 5, item_status = ''pending'' \<rparr>],
       commissions = [Commission_init 1 1 1 1 10 50 5 (Some 1) 44 None],
       payouts = [], payout_transactions = [] \<rparr>) 1) = Inr []"
  by (simp add: Shop_delete_def Shop_init_def Commission_init_def)


subsection \<open>Confirming an order\<close>

lemma find_order_after_confirm:
  "find (\<lambda>ord. order_id ord = oid) ords = Some ord \<Longrightarrow>
   find (\<lambda>ord. order_id ord = oid)
     (map (\<lambda>ord. if order_id ord = oid then ord\<lparr> order_status := ''processing'' \<rparr> else ord) ords)
   = Some (ord\<lparr> order_status := ''processing'' \<rparr>)"
  by (induction ords) (auto split: if_splits)

lemma confirm_again:
  assumes "confirm fee d oid = Inr d1"
  shows "confirm fee d1 oid = Inr d1"
proof (cases "find (\<lambda>ord. order_id ord = oid) (orders d)")
  case None
  with assms show ?thesis by (simp add: confirm_def)
next
  case (Some ord)
  show ?thesis
  proof (cases "order_status ord = ''pending''")
    case True
    with Some assms have d1: "d1 = d\<lparr> orders :=
                      map (\<lambda>ord. if order_id ord = oid
                                  then ord\<lparr> order_status := ''processing'' \<rparr> else ord)
                        (orders d),
                    commissions :=
                      generate_commissions fee (commissions d)
                        (filter (\<lambda>item. item_order item = oid) (order_items d)) \<rparr>"
      by (simp add: confirm_def)
    from find_order_after_confirm [OF Some]
    have "find (\<lambda>ord. order_id ord = oid) (orders d1)
        = Some (ord\<lparr> order_status := ''processing'' \<rparr>)"
      by (simp add: d1)
    then show ?thesis by (simp add: confirm_def)
  next
    case False
    with Some assms have "d1 = d"
      by (simp add: confirm_def split: if_splits)
    with assms show ?thesis by simp
  qed
qed

text \<open>
  C3.  Confirming an order a second time is a no-op that returns the same
  result: the store after two confirmations is the store after one, so the set
  of Commission ids and the number of Commissions are the same.
\<close>

theorem confirm_idempotent:
  assumes "confirm fee d oid = Inr d1"
  shows "confirm fee d1 oid = Inr d1
    \<and> map_sum id (\<lambda>d2. set (map commission_id (commissions d2))) (confirm fee d1 oid)
        = Inr (set (map commission_id (commissions d1)))
    \<and> map_sum id (\<lambda>d2. length (commissions d2)) (confirm fee d1 oid)
        = Inr (length (commissions d1))"
  using confirm_again [OF assms] by simp

theorem confirm_idempotent_witness:
  "confirm (\<lambda>item. 1)
     (\<lparr> shops = [Shop_init 1 ''u-1'' ''A'' ''a'' None None None],
       products = [\<lparr> product_id = 1, product_shop = 1, product_category = 1 \<rparr>],
       variants = [\<lparr> variant_id = 1, variant_product = 1 \<rparr>],
       orders = [Order_init 1 ''u-3'' ''ORD-1'' None 70 None None None 70 ''USD''],
       order_items =
         [\<lparr> item_id = 1, item_order = 1, item_product = 1, item_variant = 1, item_shop = 1,
            quantity = 1, unit_price = 50, total_price = 50, item_commission_rate = 10,
            item_commission_amount = 0, item_status = ''pending'' \<rparr>,
          \<lparr> item_id = 2, item_order = 1, item_product = 1, item_variant = 1, item_shop = 1,
            quantity = 1, unit_price = 20.05, total_price = 20.05, item_commission_rate = 10,
            item_commission_amount = 0, item_status = ''pending'' \<rparr>],
       commissions = [],
       payouts = [], payout_transactions = [] \<rparr>) 1
   = Inr
     (\<lparr> shops = [Shop_init 1 ''u-1'' ''A'' ''a'' None None None],
       products = [\<lparr> product_id = 1, product_shop = 1, product_category = 1 \<rparr>],
       variants = [\<lparr> variant_id = 1, variant_product = 1 \<rparr>],
       orders = [Order_init 1 ''u-3'' ''ORD-1'' (Some ''processing'') 70 None None None 70 ''USD''],
       order_items =
         [\<lparr> item_id = 1, item_order = 1, item_product = 1, item_variant = 1, item_shop = 1,
            quantity = 1, unit_price = 50, total_price = 50, item_commission_rate = 10,
            item_commission_amount = 0, item_status = ''pending'' \<rparr>,
          \<lparr> item_id = 2, item_order = 1, item_product = 1, item_variant = 1, item_shop = 1,
            quantity = 1, unit_price = 20.05, total_price = 20.05, item_commission_rate = 10,
            item_commission_amount = 0, item_status = ''pending'' \<rparr>],
       commissions = [Commission_init 1 1 1 1 10 50 5 (Some 1) 44 None,
                      Commission_init 2 1 1 2 10 20.05 2.00 (Some 1) 17.05 None],
       payouts = [], payout_transactions = [] \<rparr>)
   \<and> confirm (\<lambda>item. 1)
     (\<lparr> shops = [Shop_init 1 ''u-1'' ''A'' ''a'' None None None],
       products = [\<lparr> product_id = 1, product_shop = 1, product_category = 1 \<rparr>],
       variants = [\<lparr> variant_id = 1, variant_product = 1 \<rparr>],
       orders = [Order_init 1 ''u-3'' ''ORD-1'' (Some ''processing'') 70 None None None 70 ''USD''],
       order_items =
         [\<lparr> item_id = 1, item_order = 1, item_product = 1, item_variant = 1, item_shop = 1,
            quantity = 1, unit_price = 50, total_price = 50, item_commission_rate = 10,
            item_commission_amount = 0, item_status = ''pending'' \<rparr>,
          \<lparr> item_id = 2, item_order = 1, item_product = 1, item_variant = 1, item_shop = 1,
            quantity = 1, unit_price = 20.05, total_price = 20.05, item_commission_rate = 10,
            item_commission_amount = 0, item_status = ''pending'' \<rparr>],
       commissions = [Commission_init 1 1 1 1 10 50 5 (Some 1) 44 None,
                      Commission_init 2 1 1 2 10 20.05 2.00 (Some 1) 17.05 None],
       payouts = [], payout_transactions = [] \<rparr>) 1
   = Inr
     (\<lparr> shops = [Shop_init 1 ''u-1'' ''A'' ''a'' None None None],
       products = [\<lparr> product_id = 1, product_shop = 1, product_category = 1 \<rparr>],
       variants = [\<lparr> variant_id = 1, variant_product = 1 \<rparr>],
       orders = [Order_init 1 ''u-3'' ''ORD-1'' (Some ''processing'') 70 None None None 70 ''USD''],
       order_items =
         [\<lparr> item_id = 1, item_order = 1, item_product = 1, item_variant = 1, item_shop = 1,
            quantity = 1, unit_price = 50, total_price = 50, item_commission_rate = 10,
            item_commission_amount = 0, item_status = ''pending'' \<rparr>,
          \<lparr> item_id = 2, item_order = 1, item_product = 1, item_variant = 1, item_shop = 1,
            quantity = 1, unit_price = 20.05, total_price = 20.05, item_commission_rate = 10,
            item_commission_amount = 0, item_status = ''pending'' \<rparr>],
       commissions = [Commission_init 1 1 1 1 10 50 5 (Some 1) 44 None,
                      Commission_init 2 1 1 2 10 20.05 2.00 (Some 1) 17.05 None],
       payouts = [], payout_transactions = [] \<rparr>)
   \<and> map_sum id (\<lambda>d2. set (map commission_id (commissions d2)))
       (confirm (\<lambda>item. 1)
     (\<lparr> shops = [Shop_init 1 ''u-1'' ''A'' ''a'' None None None],
       products = [\<lparr> product_id = 1, product_shop = 1, product_category = 1 \<rparr>],
       variants = [\<lparr> variant_id = 1, variant_product = 1 \<rparr>],
       orders = [Order_init 1 ''u-3'' ''ORD-1'' (Some ''processing'') 70 None None None 70 ''USD''],
       order_items =
         [\<lparr> item_id = 1, item_order = 1, item_product = 1, item_variant = 1, item_shop = 1,
            quantity = 1, unit_price = 50, total_price = 50, item_commission_rate = 10,
            item_commission_amount = 0, item_status = ''pending'' \<rparr>,
          \<lparr> item_id = 2, item_order = 1, item_product = 1, item_variant = 1, item_shop = 1,
            quantity = 1, unit_price = 20.05, total_price = 20.05, item_commission_rate = 10,
            item_commission_amount = 0, item_status = ''pending'' \<rparr>],
       commissions = [Commission_init 1 1 1 1 10 50 5 (Some 1) 44 None,
                      Commission_init 2 1 1 2 10 20.05 2.00 (Some 1) 17.05 None],
       payouts = [], payout_transactions = [] \<rparr>) 1) = Inr {1, 2}
   \<and> map_sum id (\<lambda>d2. length (commissions d2))
       (confirm (\<lambda>item. 1)
     (\<lparr> shops = [Shop_init 1 ''u-1'' ''A'' ''a'' None None None],
       products = [\<lparr> product_id = 1, product_shop = 1, product_category = 1 \<rparr>],
       variants = [\<lparr> variant_id = 1, variant_product = 1 \<rparr>],
       orders = [Order_init 1 ''u-3'' ''ORD-1'' (Some ''processing'') 70 None None None 70 ''USD''],
       order_items =
         [\<lparr> item_id = 1, item_order = 1, item_product = 1, item_variant = 1, item_shop = 1,
            quantity = 1, unit_price = 50, total_price = 50, item_commission_rate = 10,
            item_commission_amount = 0, item_status = ''pending'' \<rparr>,
          \<lparr> item_id = 2, item_order = 1, item_product = 1, item_variant = 1, item_shop = 1,
            quantity = 1, unit_price = 20.05, total_price = 20.05, item_commission_rate = 10,
            item_commission_amount = 0, item_status = ''pending'' \<rparr>],
       commissions = [Commission_init 1 1 1 1 10 50 5 (Some 1) 44 None,
                      Commission_init 2 1 1 2 10 20.05 2.00 (Some 1) 17.05 None],
       payouts = [], payout_transactions = [] \<rparr>) 1) = Inr 2"
proof -
  have c: "confirm (\<lambda>item. 1)
     (\<lparr> shops = [Shop_init 1 ''u-1'' ''A'' ''a'' None None None],
       products = [\<lparr> product_id = 1, product_shop = 1, product_category = 1 \<rparr>],
       variants = [\<lparr> variant_id = 1, variant_product = 1 \<rparr>],
       orders = [Order_init 1 ''u-3'' ''ORD-1'' None 70 None None None 70 ''USD''],
       order_items =
         [\<lparr> item_id = 1, item_order = 1, item_product = 1, item_variant = 1, item_shop = 1,
            quantity = 1, unit_price = 50, total_price = 50, item_commission_rate = 10,
            item_commission_amount = 0, item_status = ''pending'' \<rparr>,
          \<lparr> item_id = 2, item_order = 1, item_product = 1, item_variant = 1, item_shop = 1,
            quantity = 1, unit_price = 20.05, total_price = 20.05, item_commission_rate = 10,
            item_commission_amount = 0, item_status = ''pending'' \<rparr>],
       commissions = [],
       payouts = [], payout_transactions = [] \<rparr>) 1
   = Inr
     (\<lparr> shops = [Shop_init 1 ''u-1'' ''A'' ''a'' None None None],
       products = [\<lparr> product_id = 1, product_shop = 1, product_category = 1 \<rparr>],
       variants = [\<lparr> variant_id = 1, variant_product = 1 \<rparr>],
       orders = [Order_init 1 ''u-3'' ''ORD-1'' (Some ''processing'') 70 None None None 70 ''USD''],
       order_items =
         [\<lparr> item_id = 1, item_order = 1, item_product = 1, item_variant = 1, item_shop = 1,
            quantity = 1, unit_price = 50, total_price = 50, item_commission_rate = 10,
            item_commission_amount = 0, item_status = ''pending'' \<rparr>,
          \<lparr> item_id = 2, item_order = 1, item_product = 1, item_variant = 1, item_shop = 1,
            quantity = 1, unit_price = 20.05, total_price = 20.05, item_commission_rate = 10,
            item_commission_amount = 0, item_status = ''pending'' \<rparr>],
       commissions = [Commission_init 1 1 1 1 10 50 5 (Some 1) 44 None,
                      Commission_init 2 1 1 2 10 20.05 2.00 (Some 1) 17.05 None],
       payouts = [], payout_transactions = [] \<rparr>)"
    by code_simp
  from confirm_idempotent [OF c] c show ?thesis
    by (simp add: Commission_init_def insert_commute)
qed


subsection \<open>Coupon usage\<close>

lemma applyDiscount_keeps_inputs:
  "applyDiscount ord amount = Inr ord1 \<Longrightarrow>
     order_status ord1 = ''pending'' \<and> subtotal ord1 = subtotal ord
     \<and> tax_amount ord1 = tax_amount ord \<and> shipping_amount ord1 = shipping_amount ord
     \<and> customer ord1 = customer ord \<and> discount_amount ord1 = amount"
  by (auto simp: applyDiscount_def split: if_splits)

lemma coupon_discount_cong:
  "subtotal ord1 = subtotal ord \<Longrightarrow> shipping_amount ord1 = shipping_amount ord \<Longrightarrow>
     coupon_discount c ord1 = coupon_discount c ord"
  by (simp add: coupon_discount_def split: option.splits)

lemma applyDiscount_again:
  assumes "applyDiscount ord amount = Inr ord1"
  shows "applyDiscount ord1 amount = Inr ord1"
  using assms by (auto simp: applyDiscount_def split: if_splits)

lemma ApplyCoupon_is_applyDiscount:
  "ApplyCoupon now usages c ord = Inr ord1 \<Longrightarrow>
     applyDiscount ord (coupon_discount c ord) = Inr ord1"
  by (simp add: ApplyCoupon_def split: if_splits)

lemma ApplyCoupon_second:
  assumes first: "ApplyCoupon now usages c ord = Inr ord1"
    and second: "ApplyCoupon now' usages' c ord1 = Inr ord2"
  shows "ord2 = ord1"
proof -
  from first have a: "applyDiscount ord (coupon_discount c ord) = Inr ord1"
    by (rule ApplyCoupon_is_applyDiscount)
  from applyDiscount_keeps_inputs [OF a]
  have "coupon_discount c ord1 = coupon_discount c ord"
    by (intro coupon_discount_cong) simp_all
  moreover from second have "applyDiscount ord1 (coupon_discount c ord1) = Inr ord2"
    by (rule ApplyCoupon_is_applyDiscount)
  ultimately have "applyDiscount ord1 (coupon_discount c ord) = Inr ord2" by simp
  with applyDiscount_again [OF a] show ?thesis by simp
qed

lemma ApplyCoupon_same_call:
  assumes first: "ApplyCoupon now usages c ord = Inr ord1"
  shows "ApplyCoupon now usages c ord1 = Inr ord1"
proof -
  from first have a: "applyDiscount ord (coupon_discount c ord) = Inr ord1"
    by (rule ApplyCoupon_is_applyDiscount)
  note k = applyDiscount_keeps_inputs [OF a]
  from k have d: "coupon_discount c ord1 = coupon_discount c ord"
    by (intro coupon_discount_cong) simp_all
  from k have s: "subtotal ord1 = subtotal ord" and u: "customer ord1 = customer ord"
    by simp_all
  from first have "ApplyCoupon now usages c ord1 = applyDiscount ord1 (coupon_discount c ord1)"
    unfolding ApplyCoupon_def s u by (simp split: if_splits)
  with d applyDiscount_again [OF a] show ?thesis by simp
qed

text \<open>
  C5.  In a CouponUsage table that satisfies its declared constraints there is
  at most one row per coupon and order; recording a usage keeps the
  constraints, and recording the same coupon for the same order again is
  refused with IntegrityError, so no second row appears.  Applying the same
  coupon to the same order a second time does not discount it again: a second
  successful application, at any time and against any usage table, returns
  the order of the first, and repeated at once it succeeds with that order.
\<close>

theorem CouponUsage_once_per_order:
  assumes "CouponUsage_table_ok usages"
  shows "length (filter (\<lambda>u. usage_coupon u = cid \<and> usage_order u = oid) usages) \<le> 1
    \<and> (\<forall>usages'. CouponUsage_create usages cid user oid amount = Inr usages'
          \<longrightarrow> CouponUsage_table_ok usages'
            \<and> CouponUsage_create usages' cid user' oid amount' = Inl IntegrityError)
    \<and> (\<forall>ord1. ApplyCoupon now usages c ord = Inr ord1
          \<longrightarrow> ApplyCoupon now usages c ord1 = Inr ord1
            \<and> (\<forall>ord2. ApplyCoupon now' usages2 c ord1 = Inr ord2
                  \<longrightarrow> ord2 = ord1 \<and> total_amount ord2 = total_amount ord1
                    \<and> discount_amount ord2 = discount_amount ord1))"
proof -
  from assms have d: "distinct (map (\<lambda>u. (usage_coupon u, usage_order u)) usages)"
    by (simp add: CouponUsage_table_ok_def)
  have "length (filter (\<lambda>u. (usage_coupon u, usage_order u) = (cid, oid)) usages) \<le> 1"
    using d by (rule distinct_key_filter_le_1)
  then have one: "length (filter (\<lambda>u. usage_coupon u = cid \<and> usage_order u = oid) usages) \<le> 1"
    by simp
  have fresh: "auto_pk (map usage_id usages) \<notin> set (map usage_id usages)"
    by (rule auto_pk_fresh)
  have ins: "CouponUsage_table_ok usages'
      \<and> CouponUsage_create usages' cid user' oid amount' = Inl IntegrityError"
    if "CouponUsage_create usages cid user oid amount = Inr usages'" for usages'
    using that assms fresh
    by (auto simp: CouponUsage_create_def CouponUsage_table_ok_def split: if_splits)
  have app: "ApplyCoupon now usages c ord1 = Inr ord1
            \<and> (\<forall>ord2. ApplyCoupon now' usages2 c ord1 = Inr ord2
                  \<longrightarrow> ord2 = ord1 \<and> total_amount ord2 = total_amount ord1
                    \<and> discount_amount ord2 = discount_amount ord1)"
    if "ApplyCoupon now usages c ord = Inr ord1" for ord1
    using ApplyCoupon_same_call [OF that] ApplyCoupon_second [OF that] by blast
  from one ins app show ?thesis by blast
qed

theorem CouponUsage_once_per_order_witness:
  "CouponUsage_table_ok
     [\<lparr> usage_id = 1, usage_coupon = 3, usage_user = ''u-9'', usage_order = 2,
          usage_discount_amount = 4 \<rparr>]
   \<and> length (filter (\<lambda>u. usage_coupon u = 3 \<and> usage_order u = 2)
       [\<lparr> usage_id = 1, usage_coupon = 3, usage_user = ''u-9'', usage_order = 2,
          usage_discount_amount = 4 \<rparr>]) = 1
   \<and> CouponUsage_create
       [\<lparr> usage_id = 1, usage_coupon = 3, usage_user = ''u-9'', usage_order = 2,
          usage_discount_amount = 4 \<rparr>] 3 ''u-3'' 1 10
     = Inr [\<lparr> usage_id = 1, usage_coupon = 3, usage_user = ''u-9'', usage_order = 2,
          usage_discount_amount = 4 \<rparr>,
            \<lparr> usage_id = 2, usage_coupon = 3, usage_user = ''u-3'', usage_order = 1,
          usage_discount_amount = 10 \<rparr>]
   \<and> CouponUsage_table_ok
       [\<lparr> usage_id = 1, usage_coupon = 3, usage_user = ''u-9'', usage_order = 2,
          usage_discount_amount = 4 \<rparr>,
        \<lparr> usage_id = 2, usage_coupon = 3, usage_user = ''u-3'', usage_order = 1,
          usage_discount_amount = 10 \<rparr>]
   \<and> CouponUsage_create
       [\<lparr> usage_id = 1, usage_coupon = 3, usage_user = ''u-9'', usage_order = 2,
          usage_discount_amount = 4 \<rparr>,
        \<lparr> usage_id = 2, usage_coupon = 3, usage_user = ''u-3'', usage_order = 1,
          usage_discount_amount = 10 \<rparr>] 3 ''u-3'' 1 10
     = Inl IntegrityError
   \<and> ApplyCoupon 100
        [\<lparr> usage_id = 1, usage_coupon = 3, usage_user = ''u-9'', usage_order = 2,
          usage_discount_amount = 4 \<rparr>]
        \<lparr> coupon_id = 3, coupon_shop = None, coupon_code = ''SAVE10'',
          discount_type = ''percentage'', discount_value = 10,
          minimum_order_amount = None, maximum_discount_amount = Some 15,
          is_active = True, starts_at = None, expires_at = Some 200,
          usage_limit = Some 100, usage_limit_per_customer = Some 1 \<rparr>
        (Order_init 1 ''u-3'' ''ORD-1'' None 100 (Some 8) (Some 5) None 113 ''USD'')
       = Inr (Order_init 1 ''u-3'' ''ORD-1'' None 100 (Some 8) (Some 5) (Some 10) 103 ''USD'')
   \<and> ApplyCoupon 100
        [\<lparr> usage_id = 1, usage_coupon = 3, usage_user = ''u-9'', usage_order = 2,
          usage_discount_amount = 4 \<rparr>]
        \<lparr> coupon_id = 3, coupon_shop = None, coupon_code = ''SAVE10'',
          discount_type = ''percentage'', discount_value = 10,
          minimum_order_amount = None, maximum_discount_amount = Some 15,
          is_active = True, starts_at = None, expires_at = Some 200,
          usage_limit = Some 100, usage_limit_per_customer = Some 1 \<rparr>
        (Order_init 1 ''u-3'' ''ORD-1'' None 100 (Some 8) (Some 5) (Some 10) 103 ''USD'')
       = Inr (Order_init 1 ''u-3'' ''ORD-1'' None 100 (Some 8) (Some 5) (Some 10) 103 ''USD'')
   \<and> total_amount (Order_init 1 ''u-3'' ''ORD-1'' None 100 (Some 8) (Some 5) (Some 10) 103 ''USD'') = 103"
proof -
  have ok: "CouponUsage_table_ok
     [\<lparr> usage_id = 1, usage_coupon = 3, usage_user = ''u-9'', usage_order = 2,
          usage_discount_amount = 4 \<rparr>]"
    by (simp add: CouponUsage_table_ok_def)
  have cr: "CouponUsage_create
       [\<lparr> usage_id = 1, usage_coupon = 3, usage_user = ''u-9'', usage_order = 2,
          usage_discount_amount = 4 \<rparr>] 3 ''u-3'' 1 10
     = Inr [\<lparr> usage_id = 1, usage_coupon = 3, usage_user = ''u-9'', usage_order = 2,
          usage_discount_amount = 4 \<rparr>,
            \<lparr> usage_id = 2, usage_coupon = 3, usage_user = ''u-3'', usage_order = 1,
          usage_discount_amount = 10 \<rparr>]"
    by (simp add: CouponUsage_create_def auto_pk_def)
  have ap: "ApplyCoupon 100
        [\<lparr> usage_id = 1, usage_coupon = 3, usage_user = ''u-9'', usage_order = 2,
          usage_discount_amount = 4 \<rparr>]
        \<lparr> coupon_id = 3, coupon_shop = None, coupon_code = ''SAVE10'',
          discount_type = ''percentage'', discount_value = 10,
          minimum_order_amount = None, maximum_discount_amount = Some 15,
          is_active = True, starts_at = None, expires_at = Some 200,
          usage_limit = Some 100, usage_limit_per_customer = Some 1 \<rparr>
        (Order_init 1 ''u-3'' ''ORD-1'' None 100 (Some 8) (Some 5) None 113 ''USD'')
       = Inr (Order_init 1 ''u-3'' ''ORD-1'' None 100 (Some 8) (Some 5) (Some 10) 103 ''USD'')"
    by (simp add: ApplyCoupon_def applyDiscount_def coupon_discount_def Order_init_def)
  from CouponUsage_once_per_order [OF ok, of 3 2]
       CouponUsage_once_per_order [OF ok, of 3 1 "''u-3''" 10 "''u-3''" 10 100
         "\<lparr> coupon_id = 3, coupon_shop = None, coupon_code = ''SAVE10'',
          discount_type = ''percentage'', discount_value = 10,
          minimum_order_amount = None, maximum_discount_amount = Some 15,
          is_active = True, starts_at = None, expires_at = Some 200,
          usage_limit = Some 100, usage_limit_per_customer = Some 1 \<rparr>"
         "Order_init 1 ''u-3'' ''ORD-1'' None 100 (Some 8) (Some 5) None 113 ''USD''" 100
         "[\<lparr> usage_id = 1, usage_coupon = 3, usage_user = ''u-9'', usage_order = 2,
          usage_discount_amount = 4 \<rparr>]"]
       ok cr ap
  show ?thesis by (simp add: Order_init_def)
qed


subsection \<open>Order item quantities\<close>

lemma OrderItem_create_success:
  assumes "OrderItem_create int_max seq d item = Inr d'"
  shows "0 \<le> quantity item" and "quantity item \<le> int_max"
    and "seq \<notin> set (map item_id (order_items d))"
    and "d' = d\<lparr> order_items := order_items d @ [item\<lparr> item_id := seq \<rparr>] \<rparr>"
    and "OrderItem_create int_max seq d (item\<lparr> quantity := 0 \<rparr>)
           = Inr (d\<lparr> order_items := order_items d @ [item\<lparr> item_id := seq, quantity := 0 \<rparr>] \<rparr>)"
  using assms by (auto simp: OrderItem_create_def split: if_splits)

text \<open>
  C7 (as the schema has it).  Every stored OrderItem's quantity is a
  non-negative integer, and 0 is admitted.  A negative quantity fails
  validation with ValidationError and its insert is refused.  An item that
  passes validation has quantity at least 0 and still passes with quantity 0;
  an item that is inserted has quantity at least 0, the table keeps its
  constraints, and the same item with quantity 0 is inserted as well.
\<close>

theorem OrderItem_quantity_non_negative:
  "(quantity item < 0 \<longrightarrow>
      OrderItem_clean_fields hi item = Inl ValidationError
      \<and> isl (OrderItem_create int_max seq d item))
   \<and> (OrderItem_clean_fields hi item = Inr () \<longrightarrow>
        0 \<le> quantity item
        \<and> OrderItem_clean_fields hi (item\<lparr> quantity := 0 \<rparr>) = Inr ())
   \<and> (OrderItem_create int_max seq d item = Inr d' \<longrightarrow>
        0 \<le> quantity item
        \<and> (OrderItem_table_ok (order_items d) \<longrightarrow> OrderItem_table_ok (order_items d'))
        \<and> map_sum id (\<lambda>d''. map quantity (order_items d''))
              (OrderItem_create int_max seq d (item\<lparr> quantity := 0 \<rparr>))
            = Inr (map quantity (order_items d) @ [0]))
   \<and> (OrderItem_table_ok (order_items d) \<longrightarrow> (\<forall>r \<in> set (order_items d). 0 \<le> quantity r))"
proof -
  have neg: "quantity item < 0 \<longrightarrow>
      OrderItem_clean_fields hi item = Inl ValidationError
      \<and> isl (OrderItem_create int_max seq d item)"
    by (simp add: OrderItem_clean_fields_def positive_integer_ok_def OrderItem_create_def)
  have val: "OrderItem_clean_fields hi item = Inr () \<longrightarrow>
        0 \<le> quantity item
        \<and> OrderItem_clean_fields hi (item\<lparr> quantity := 0 \<rparr>) = Inr ()"
    by (auto simp: OrderItem_clean_fields_def positive_integer_ok_def split: if_splits)
  have ins: "0 \<le> quantity item
        \<and> (OrderItem_table_ok (order_items d) \<longrightarrow> OrderItem_table_ok (order_items d'))
        \<and> map_sum id (\<lambda>d''. map quantity (order_items d''))
              (OrderItem_create int_max seq d (item\<lparr> quantity := 0 \<rparr>))
            = Inr (map quantity (order_items d) @ [0])"
    if c: "OrderItem_create int_max seq d item = Inr d'"
  proof -
    note s = OrderItem_create_success [OF c]
    have "OrderItem_table_ok (order_items d')" if "OrderItem_table_ok (order_items d)"
      using that s(1,3) by (simp add: s(4) OrderItem_table_ok_def)
    with s(1) show ?thesis by (simp add: s(5))
  qed
  have stored: "OrderItem_table_ok (order_items d) \<longrightarrow> (\<forall>r \<in> set (order_items d). 0 \<le> quantity r)"
    by (simp add: OrderItem_table_ok_def list_all_iff)
  from neg val ins stored show ?thesis by blast
qed

theorem OrderItem_quantity_non_negative_witness:
  "OrderItem_clean_fields 2147483647
        \<lparr> item_id = 0, item_order = 1, item_product = 1, item_variant = 1, item_shop = 1,
          quantity = 3, unit_price = 10, total_price = 30, item_commission_rate = 10,
          item_commission_amount = 3, item_status = ''pending'' \<rparr> = Inr ()
   \<and> OrderItem_clean_fields 2147483647
        (\<lparr> item_id = 0, item_order = 1, item_product = 1, item_variant = 1, item_shop = 1,
          quantity = 3, unit_price = 10, total_price = 30, item_commission_rate = 10,
          item_commission_amount = 3, item_status = ''pending'' \<rparr>\<lparr> quantity := 0 \<rparr>) = Inr ()
   \<and> OrderItem_table_ok (order_items
     (\<lparr> shops = [Shop_init 1 ''u-1'' ''A'' ''a'' None None None],
       products = [\<lparr> product_id = 1, product_shop = 1, product_category = 1 \<rparr>],
       variants = [\<lparr> variant_id = 1, variant_product = 1 \<rparr>],
       orders = [Order_init 1 ''u-3'' ''ORD-1'' None 30 None None None 30 ''USD''],
       order_items = [],
       commissions = [], payouts = [], payout_transactions = [] \<rparr>))
   \<and> OrderItem_create 9223372036854775807 1
     (\<lparr> shops = [Shop_init 1 ''u-1'' ''A'' ''a'' None None None],
       products = [\<lparr> product_id = 1, product_shop = 1, product_category = 1 \<rparr>],
       variants = [\<lparr> variant_id = 1, variant_product = 1 \<rparr>],
       orders = [Order_init 1 ''u-3'' ''ORD-1'' None 30 None None None 30 ''USD''],
       order_items = [],
       commissions = [], payouts = [], payout_transactions = [] \<rparr>)
        \<lparr> item_id = 0, item_order = 1, item_product = 1, item_variant = 1, item_shop = 1,
          quantity = 3, unit_price = 10, total_price = 30, item_commission_rate = 10,
          item_commission_amount = 3, item_status = ''pending'' \<rparr>
      = Inr
     (\<lparr> shops = [Shop_init 1 ''u-1'' ''A'' ''a'' None None None],
       products = [\<lparr> product_id = 1, product_shop = 1, product_category = 1 \<rparr>],
       variants = [\<lparr> variant_id = 1, variant_product = 1 \<rparr>],
       orders = [Order_init 1 ''u-3'' ''ORD-1'' None 30 None None None 30 ''USD''],
       order_items = [\<lparr> item_id = 1, item_order = 1, item_product = 1, item_variant = 1, item_shop = 1,
          quantity = 3, unit_price = 10, total_price = 30, item_commission_rate = 10,
          item_commission_amount = 3, item_status = ''pending'' \<rparr>],
       commissions = [], payouts = [], payout_transactions = [] \<rparr>)
   \<and> OrderItem_table_ok (order_items
     (\<lparr> shops = [Shop_init 1 ''u-1'' ''A'' ''a'' None None None],
       products = [\<lparr> product_id = 1, product_shop = 1, product_category = 1 \<rparr>],
       variants = [\<lparr> variant_id = 1, variant_product = 1 \<rparr>],
       orders = [Order_init 1 ''u-3'' ''ORD-1'' None 30 None None None 30 ''USD''],
       order_items = [\<lparr> item_id = 1, item_order = 1, item_product = 1, item_variant = 1, item_shop = 1,
          quantity = 3, unit_price = 10, total_price = 30, item_commission_rate = 10,
          item_commission_amount = 3, item_status = ''pending'' \<rparr>],
       commissions = [], payouts = [], payout_transactions = [] \<rparr>))
   \<and> map_sum id (\<lambda>d''. map quantity (order_items d''))
       (OrderItem_create 9223372036854775807 1
     (\<lparr> shops = [Shop_init 1 ''u-1'' ''A'' ''a'' None None None],
       products = [\<lparr> product_id = 1, product_shop = 1, product_category = 1 \<rparr>],
       variants = [\<lparr> variant_id = 1, variant_product = 1 \<rparr>],
       orders = [Order_init 1 ''u-3'' ''ORD-1'' None 30 None None None 30 ''USD''],
       order_items = [],
       commissions = [], payouts = [], payout_transactions = [] \<rparr>)
        (\<lparr> item_id = 0, item_order = 1, item_product = 1, item_variant = 1, item_shop = 1,
          quantity = 3, unit_price = 10, total_price = 30, item_commission_rate = 10,
          item_commission_amount = 3, item_status = ''pending'' \<rparr>\<lparr> quantity := 0 \<rparr>)) = Inr [0]
   \<and> OrderItem_clean_fields 2147483647
        \<lparr> item_id = 0, item_order = 1, item_product = 1, item_variant = 1, item_shop = 1,
          quantity = - 1, unit_price = 10, total_price = 30, item_commission_rate = 10,
          item_commission_amount = 3, item_status = ''pending'' \<rparr> = Inl ValidationError
   \<and> isl (OrderItem_create 9223372036854775807 1
     (\<lparr> shops = [Shop_init 1 ''u-1'' ''A'' ''a'' None None None],
       products = [\<lparr> product_id = 1, product_shop = 1, product_category = 1 \<rparr>],
       variants = [\<lparr> variant_id = 1, variant_product = 1 \<rparr>],
       orders = [Order_init 1 ''u-3'' ''ORD-1'' None 30 None None None 30 ''USD''],
       order_items = [],
       commissions = [], payouts = [], payout_transactions = [] \<rparr>)
        \<lparr> item_id = 0, item_order = 1, item_product = 1, item_variant = 1, item_shop = 1,
          quantity = - 1, unit_price = 10, total_price = 30, item_commission_rate = 10,
          item_commission_amount = 3, item_status = ''pending'' \<rparr>)"
proof -
  have cl: "OrderItem_clean_fields 2147483647
        \<lparr> item_id = 0, item_order = 1, item_product = 1, item_variant = 1, item_shop = 1,
          quantity = 3, unit_price = 10, total_price = 30, item_commission_rate = 10,
          item_commission_amount = 3, item_status = ''pending'' \<rparr> = Inr ()"
    by (simp add: OrderItem_clean_fields_def positive_integer_ok_def decimal_ok_def
        choice_ok_def OrderItem_STATUS_CHOICES_def)
  have ok: "OrderItem_table_ok (order_items
     (\<lparr> shops = [Shop_init 1 ''u-1'' ''A'' ''a'' None None None],
       products = [\<lparr> product_id = 1, product_shop = 1, product_category = 1 \<rparr>],
       variants = [\<lparr> variant_id = 1, variant_product = 1 \<rparr>],
       orders = [Order_init 1 ''u-3'' ''ORD-1'' None 30 None None None 30 ''USD''],
       order_items = [],
       commissions = [], payouts = [], payout_transactions = [] \<rparr>))"
    by (simp add: OrderItem_table_ok_def)
  have cr: "OrderItem_create 9223372036854775807 1
     (\<lparr> shops = [Shop_init 1 ''u-1'' ''A'' ''a'' None None None],
       products = [\<lparr> product_id = 1, product_shop = 1, product_category = 1 \<rparr>],
       variants = [\<lparr> variant_id = 1, variant_product = 1 \<rparr>],
       orders = [Order_init 1 ''u-3'' ''ORD-1'' None 30 None None None 30 ''USD''],
       order_items = [],
       commissions = [], payouts = [], payout_transactions = [] \<rparr>)
        \<lparr> item_id = 0, item_order = 1, item_product = 1, item_variant = 1, item_shop = 1,
          quantity = 3, unit_price = 10, total_price = 30, item_commission_rate = 10,
          item_commission_amount = 3, item_status = ''pending'' \<rparr>
      = Inr
     (\<lparr> shops = [Shop_init 1 ''u-1'' ''A'' ''a'' None None None],
       products = [\<lparr> product_id = 1, product_shop = 1, product_category = 1 \<rparr>],
       variants = [\<lparr> variant_id = 1, variant_product = 1 \<rparr>],
       orders = [Order_init 1 ''u-3'' ''ORD-1'' None 30 None None None 30 ''USD''],
       order_items = [\<lparr> item_id = 1, item_order = 1, item_product = 1, item_variant = 1, item_shop = 1,
          quantity = 3, unit_price = 10, total_price = 30, item_commission_rate = 10,
          item_commission_amount = 3, item_status = ''pending'' \<rparr>],
       commissions = [], payouts = [], payout_transactions = [] \<rparr>)"
    by (simp add: OrderItem_create_def Shop_init_def Order_init_def)
  from OrderItem_quantity_non_negative [of
        "\<lparr> item_id = 0, item_order = 1, item_product = 1, item_variant = 1, item_shop = 1,
          quantity = 3, unit_price = 10, total_price = 30, item_commission_rate = 10,
          item_commission_amount = 3, item_status = ''pending'' \<rparr>" 2147483647 9223372036854775807 1
        "\<lparr> shops = [Shop_init 1 ''u-1'' ''A'' ''a'' None None None],
       products = [\<lparr> product_id = 1, product_shop = 1, product_category = 1 \<rparr>],
       variants = [\<lparr> variant_id = 1, variant_product = 1 \<rparr>],
       orders = [Order_init 1 ''u-3'' ''ORD-1'' None 30 None None None 30 ''USD''],
       order_items = [],
       commissions = [], payouts = [], payout_transactions = [] \<rparr>"
        "\<lparr> shops = [Shop_init 1 ''u-1'' ''A'' ''a'' None None None],
       products = [\<lparr> product_id = 1, product_shop = 1, product_category = 1 \<rparr>],
       variants = [\<lparr> variant_id = 1, variant_product = 1 \<rparr>],
       orders = [Order_init 1 ''u-3'' ''ORD-1'' None 30 None None None 30 ''USD''],
       order_items = [\<lparr> item_id = 1, item_order = 1, item_product = 1, item_variant = 1, item_shop = 1,
          quantity = 3, unit_price = 10, total_price = 30, item_commission_rate = 10,
          item_commission_amount = 3, item_status = ''pending'' \<rparr>],
       commissions = [], payouts = [], payout_transactions = [] \<rparr>"]
       OrderItem_quantity_non_negative [of
        "\<lparr> item_id = 0, item_order = 1, item_product = 1, item_variant = 1, item_shop = 1,
          quantity = - 1, unit_price = 10, total_price = 30, item_commission_rate = 10,
          item_commission_amount = 3, item_status = ''pending'' \<rparr>" 2147483647 9223372036854775807 1
        "\<lparr> shops = [Shop_init 1 ''u-1'' ''A'' ''a'' None None None],
       products = [\<lparr> product_id = 1, product_shop = 1, product_category = 1 \<rparr>],
       variants = [\<lparr> variant_id = 1, variant_product = 1 \<rparr>],
       orders = [Order_init 1 ''u-3'' ''ORD-1'' None 30 None None None 30 ''USD''],
       order_items = [],
       commissions = [], payouts = [], payout_transactions = [] \<rparr>"]
       cl ok cr
  show ?thesis by simp
qed

text \<open>
  The claim as stated fails at quantity 0: the item passes validation, is
  inserted, the table with it satisfies the column's check, and its quantity
  is not at least 1.
\<close>

theorem OrderItem_quantity_zero_accepted:
  "OrderItem_clean_fields 2147483647
        \<lparr> item_id = 0, item_order = 1, item_product = 1, item_variant = 1, item_shop = 1,
          quantity = 0, unit_price = 10, total_price = 0, item_commission_rate = 10,
          item_commission_amount = 0, item_status = ''pending'' \<rparr> = Inr ()
   \<and> OrderItem_create 9223372036854775807 1
     (\<lparr> shops = [Shop_init 1 ''u-1'' ''A'' ''a'' None None None],
       products = [\<lparr> product_id = 1, product_shop = 1, product_category = 1 \<rparr>],
       variants = [\<lparr> variant_id = 1, variant_product = 1 \<rparr>],
       orders = [Order_init 1 ''u-3'' ''ORD-1'' None 30 None None None 30 ''USD''],
       order_items = [],
       commissions = [], payouts = [], payout_transactions = [] \<rparr>)
        \<lparr> item_id = 0, item_order = 1, item_product = 1, item_variant = 1, item_shop = 1,
          quantity = 0, unit_price = 10, total_price = 0, item_commission_rate = 10,
          item_commission_amount = 0, item_status = ''pending'' \<rparr>
      = Inr
     (\<lparr> shops = [Shop_init 1 ''u-1'' ''A'' ''a'' None None None],
       products = [\<lparr> product_id = 1, product_shop = 1, product_category = 1 \<rparr>],
       variants = [\<lparr> variant_id = 1, variant_product = 1 \<rparr>],
       orders = [Order_init 1 ''u-3'' ''ORD-1'' None 30 None None None 30 ''USD''],
       order_items = [\<lparr> item_id = 1, item_order = 1, item_product = 1, item_variant = 1, item_shop = 1,
          quantity = 0, unit_price = 10, total_price = 0, item_commission_rate = 10,
          item_commission_amount = 0, item_status = ''pending'' \<rparr>],
       commissions = [], payouts = [], payout_transactions = [] \<rparr>)
   \<and> OrderItem_table_ok (order_items
     (\<lparr> shops = [Shop_init 1 ''u-1'' ''A'' ''a'' None None None],
       products = [\<lparr> product_id = 1, product_shop = 1, product_category = 1 \<rparr>],
       variants = [\<lparr> variant_id = 1, variant_product = 1 \<rparr>],
       orders = [Order_init 1 ''u-3'' ''ORD-1'' None 30 None None None 30 ''USD''],
       order_items = [\<lparr> item_id = 1, item_order = 1, item_product = 1, item_variant = 1, item_shop = 1,
          quantity = 0, unit_price = 10, total_price = 0, item_commission_rate = 10,
          item_commission_amount = 0, item_status = ''pending'' \<rparr>],
       commissions = [], payouts = [], payout_transactions = [] \<rparr>))
   \<and> map quantity (order_items
     (\<lparr> shops = [Shop_init 1 ''u-1'' ''A'' ''a'' None None None],
       products = [\<lparr> product_id = 1, product_shop = 1, product_category = 1 \<rparr>],
       variants = [\<lparr> variant_id = 1, variant_product = 1 \<rparr>],
       orders = [Order_init 1 ''u-3'' ''ORD-1'' None 30 None None None 30 ''USD''],
       order_items = [\<lparr> item_id = 1, item_order = 1, item_product = 1, item_variant = 1, item_shop = 1,
          quantity = 0, unit_price = 10, total_price = 0, item_commission_rate = 10,
          item_commission_amount = 0, item_status = ''pending'' \<rparr>],
       commissions = [], payouts = [], payout_transactions = [] \<rparr>)) = [0]
   \<and> \<not> 1 \<le> quantity
        \<lparr> item_id = 0, item_order = 1, item_product = 1, item_variant = 1, item_shop = 1,
          quantity = 0, unit_price = 10, total_price = 0, item_commission_rate = 10,
          item_commission_amount = 0, item_status = ''pending'' \<rparr>"
  by (simp add: OrderItem_clean_fields_def positive_integer_ok_def decimal_ok_def
        choice_ok_def OrderItem_STATUS_CHOICES_def OrderItem_create_def
        OrderItem_table_ok_def Shop_init_def Order_init_def)


subsection \<open>Commission amounts\<close>

lemma round_half_even_of_int: "round_half_even (of_int n) = n"
  by (simp add: round_half_even_def)

lemma round_half_even_near: "\<bar>of_int (round_half_even x) - x\<bar> \<le> 1 / 2"
proof -
  have lo: "of_int \<lfloor>x\<rfloor> \<le> x" and up: "x < of_int \<lfloor>x\<rfloor> + 1"
    by linarith+
  show ?thesis
    using lo up by (auto simp: round_half_even_def Let_def abs_le_iff)
qed

lemma quantize_exact:
  assumes "of_int \<lfloor>x * 100\<rfloor> = x * 100"
  shows "quantize x = x"
proof -
  have "round_half_even (x * 100) = \<lfloor>x * 100\<rfloor>"
    using round_half_even_of_int [of "\<lfloor>x * 100\<rfloor>"] assms by simp
  then have "quantize x = of_int \<lfloor>x * 100\<rfloor> / 100"
    by (simp only: quantize_def)
  also have "\<dots> = x * 100 / 100"
    by (simp only: assms)
  finally show ?thesis by simp
qed

lemma quantize_near: "\<bar>quantize x - x\<bar> \<le> 1 / 200"
proof -
  define y :: rat where "y = of_int (round_half_even (x * 100))"
  have "\<bar>y - x * 100\<bar> \<le> 1 / 2"
    unfolding y_def by (rule round_half_even_near)
  then have "- (1 / 2) \<le> y - x * 100" and "y - x * 100 \<le> 1 / 2"
    by linarith+
  then have "- (1 / 200) \<le> y / 100 - x" and "y / 100 - x \<le> 1 / 200"
    by linarith+
  moreover have "quantize x = y / 100"
    by (simp only: quantize_def y_def)
  ultimately show ?thesis by linarith
qed

lemma calculate_commission_fields:
  "gross_amount (calculate_commission fee pk item) = total_price item"
  "commission_rate (calculate_commission fee pk item) = item_commission_rate item"
  "platform_fee (calculate_commission fee pk item) = fee item"
  "commission_amount (calculate_commission fee pk item) = quantize (total_price item * item_commission_rate item / 100)"
  "net_amount (calculate_commission fee pk item) = total_price item
     - quantize (total_price item * item_commission_rate item / 100) - fee item"
  "commission_status (calculate_commission fee pk item) = ''pending''"
  by (simp_all add: calculate_commission_def Commission_init_def Let_def)

text \<open>
  C2 (with the rounding of the calculator).  For every Commission the
  commission calculator produces for an OrderItem, net_amount = gross_amount -
  commission_amount - platform_fee, and commission_amount is gross_amount *
  commission_rate / 100 rounded half-to-even to two decimal places: never
  further than 0.005 from it, and equal to it whenever gross_amount *
  commission_rate is a whole number.  In particular, for the Shop's default
  rate 10.00, gross_amount 50.00 and platform_fee 1.00, commission_amount is
  5.00 and net_amount is 44.00, and the Commission passes the model's
  validation.
\<close>

theorem calculate_commission_arithmetic:
  "net_amount (calculate_commission fee pk item)
     = gross_amount (calculate_commission fee pk item) - commission_amount (calculate_commission fee pk item) - platform_fee (calculate_commission fee pk item)
   \<and> gross_amount (calculate_commission fee pk item) = total_price item
   \<and> commission_rate (calculate_commission fee pk item) = item_commission_rate item
   \<and> platform_fee (calculate_commission fee pk item) = fee item
   \<and> commission_amount (calculate_commission fee pk item)
       = quantize (gross_amount (calculate_commission fee pk item) * commission_rate (calculate_commission fee pk item) / 100)
   \<and> \<bar>commission_amount (calculate_commission fee pk item) - gross_amount (calculate_commission fee pk item) * commission_rate (calculate_commission fee pk item) / 100\<bar> \<le> 1 / 200
   \<and> (of_int \<lfloor>gross_amount (calculate_commission fee pk item) * commission_rate (calculate_commission fee pk item)\<rfloor>
          = gross_amount (calculate_commission fee pk item) * commission_rate (calculate_commission fee pk item)
        \<longrightarrow> commission_amount (calculate_commission fee pk item) = gross_amount (calculate_commission fee pk item) * commission_rate (calculate_commission fee pk item) / 100)
   \<and> (total_price item = 50.00
        \<and> item_commission_rate item
            = shop_commission_rate (Shop_init shp own name slug None None None)
        \<and> fee item = 1.00
        \<longrightarrow> commission_amount (calculate_commission fee pk item) = 5.00
          \<and> net_amount (calculate_commission fee pk item) = 44.00
          \<and> Commission_clean_fields (calculate_commission fee pk item) = Inr ())"
proof -
  note f = calculate_commission_fields [of fee pk item]
  have near: "\<bar>commission_amount (calculate_commission fee pk item) - gross_amount (calculate_commission fee pk item) * commission_rate (calculate_commission fee pk item) / 100\<bar> \<le> 1 / 200"
    by (simp only: f quantize_near)
  have exact: "commission_amount (calculate_commission fee pk item) = gross_amount (calculate_commission fee pk item) * commission_rate (calculate_commission fee pk item) / 100"
    if "of_int \<lfloor>gross_amount (calculate_commission fee pk item) * commission_rate (calculate_commission fee pk item)\<rfloor>
          = gross_amount (calculate_commission fee pk item) * commission_rate (calculate_commission fee pk item)"
  proof -
    from that
    have "of_int \<lfloor>total_price item * item_commission_rate item / 100 * 100\<rfloor>
        = total_price item * item_commission_rate item / 100 * 100"
      by (simp add: f)
    then have "quantize (total_price item * item_commission_rate item / 100)
        = total_price item * item_commission_rate item / 100"
      by (rule quantize_exact)
    then show ?thesis by (simp only: f)
  qed
  have q5: "quantize 5 = 5"
    by (rule quantize_exact) simp
  have example: "commission_amount (calculate_commission fee pk item) = 5.00
          \<and> net_amount (calculate_commission fee pk item) = 44.00
          \<and> Commission_clean_fields (calculate_commission fee pk item) = Inr ()"
    if "total_price item = 50.00
        \<and> item_commission_rate item
            = shop_commission_rate (Shop_init shp own name slug None None None)
        \<and> fee item = 1.00"
  proof -
    from that have v: "total_price item = 50" "item_commission_rate item = 10" "fee item = 1"
      by (simp_all add: Shop_init_def)
    have c: "commission_amount (calculate_commission fee pk item) = 5" "net_amount (calculate_commission fee pk item) = 44" "gross_amount (calculate_commission fee pk item) = 50"
      "commission_rate (calculate_commission fee pk item) = 10" "platform_fee (calculate_commission fee pk item) = 1"
      by (simp_all add: f v q5)
    then show ?thesis
      by (simp add: Commission_clean_fields_def decimal_ok_def choice_ok_def
          Commission_STATUS_CHOICES_def f(6))
  qed
  from near exact example show ?thesis
    by (simp only: f) simp
qed

theorem calculate_commission_arithmetic_witness:
  "commission_amount (calculate_commission (\<lambda>item. 1) 1
        \<lparr> item_id = 1, item_order = 1, item_product = 1, item_variant = 1, item_shop = 1,
          quantity = 1, unit_price = 50, total_price = 50, item_commission_rate = 10,
          item_commission_amount = 0, item_status = ''pending'' \<rparr>) = 5
   \<and> net_amount (calculate_commission (\<lambda>item. 1) 1
        \<lparr> item_id = 1, item_order = 1, item_product = 1, item_variant = 1, item_shop = 1,
          quantity = 1, unit_price = 50, total_price = 50, item_commission_rate = 10,
          item_commission_amount = 0, item_status = ''pending'' \<rparr>) = 44
   \<and> gross_amount (calculate_commission (\<lambda>item. 1) 1
        \<lparr> item_id = 1, item_order = 1, item_product = 1, item_variant = 1, item_shop = 1,
          quantity = 1, unit_price = 50, total_price = 50, item_commission_rate = 10,
          item_commission_amount = 0, item_status = ''pending'' \<rparr>)
      * commission_rate (calculate_commission (\<lambda>item. 1) 1
        \<lparr> item_id = 1, item_order = 1, item_product = 1, item_variant = 1, item_shop = 1,
          quantity = 1, unit_price = 50, total_price = 50, item_commission_rate = 10,
          item_commission_amount = 0, item_status = ''pending'' \<rparr>) / 100 = 5
   \<and> Commission_clean_fields (calculate_commission (\<lambda>item. 1) 1
        \<lparr> item_id = 1, item_order = 1, item_product = 1, item_variant = 1, item_shop = 1,
          quantity = 1, unit_price = 50, total_price = 50, item_commission_rate = 10,
          item_commission_amount = 0, item_status = ''pending'' \<rparr>) = Inr ()"
proof -
  have q: "quantize 5 = 5"
    by (rule quantize_exact) simp
  from calculate_commission_arithmetic [of "\<lambda>item. 1" 1
        "\<lparr> item_id = 1, item_order = 1, item_product = 1, item_variant = 1, item_shop = 1,
          quantity = 1, unit_price = 50, total_price = 50, item_commission_rate = 10,
          item_commission_amount = 0, item_status = ''pending'' \<rparr>" 1 "''u-1''" "''A''" "''a''"]
  show ?thesis
    by (simp add: Shop_init_def calculate_commission_fields q)
qed

text \<open>
  The claim as stated fails where the product has a third decimal place: for
  an item of 20.05 at rate 10.00 the calculator gives commission_amount 2.00,
  while gross_amount * commission_rate / 100 is 2.005.
\<close>

theorem calculate_commission_rounds:
  "commission_amount (calculate_commission (\<lambda>item. 1) 1
        \<lparr> item_id = 1, item_order = 1, item_product = 1, item_variant = 1, item_shop = 1,
          quantity = 1, unit_price = 20.05, total_price = 20.05, item_commission_rate = 10,
          item_commission_amount = 0, item_status = ''pending'' \<rparr>) = 2
   \<and> gross_amount (calculate_commission (\<lambda>item. 1) 1
        \<lparr> item_id = 1, item_order = 1, item_product = 1, item_variant = 1, item_shop = 1,
          quantity = 1, unit_price = 20.05, total_price = 20.05, item_commission_rate = 10,
          item_commission_amount = 0, item_status = ''pending'' \<rparr>)
      * commission_rate (calculate_commission (\<lambda>item. 1) 1
        \<lparr> item_id = 1, item_order = 1, item_product = 1, item_variant = 1, item_shop = 1,
          quantity = 1, unit_price = 20.05, total_price = 20.05, item_commission_rate = 10,
          item_commission_amount = 0, item_status = ''pending'' \<rparr>) / 100 = 401 / 200
   \<and> commission_amount (calculate_commission (\<lambda>item. 1) 1
        \<lparr> item_id = 1, item_order = 1, item_product = 1, item_variant = 1, item_shop = 1,
          quantity = 1, unit_price = 20.05, total_price = 20.05, item_commission_rate = 10,
          item_commission_amount = 0, item_status = ''pending'' \<rparr>)
      \<noteq> gross_amount (calculate_commission (\<lambda>item. 1) 1
        \<lparr> item_id = 1, item_order = 1, item_product = 1, item_variant = 1, item_shop = 1,
          quantity = 1, unit_price = 20.05, total_price = 20.05, item_commission_rate = 10,
          item_commission_amount = 0, item_status = ''pending'' \<rparr>)
        * commission_rate (calculate_commission (\<lambda>item. 1) 1
        \<lparr> item_id = 1, item_order = 1, item_product = 1, item_variant = 1, item_shop = 1,
          quantity = 1, unit_price = 20.05, total_price = 20.05, item_commission_rate = 10,
          item_commission_amount = 0, item_status = ''pending'' \<rparr>) / 100"
  by code_simp


subsection \<open>Order amounts\<close>








end
